theory Spec2Isabelle
  imports Main "HOL-Library.Word" "HOL-Library.Signed_Division"
    "HOL-Library.Char_ord" "HOL-Library.List_Lexorder"
begin

section \<open>webp2mp4: the conversion strategies of main.go\<close>

text \<open>
  The program of \<^verbatim>\<open>main.go\<close> converts an animated WebP file into an MP4 video by running
  external tools (\<^verbatim>\<open>ffmpeg\<close>, and ImageMagick's \<^verbatim>\<open>convert\<close> as a fallback). Its functions
  are embedded here one by one, under their own names. What lies outside the program, the
  file system, the image decoders and the external processes, is a parameter of the model
  (a \<open>world\<close>), so that every theorem holds whatever these do.

  What the model leaves out: the messages printed on the console (\<^verbatim>\<open>fmt.Printf\<close> under
  \<^verbatim>\<open>verbose\<close>), which change neither a result nor the file system; the \<^verbatim>\<open>webpmux\<close>
  command that line 91 builds and line 100 overwrites before it is ever run; and the
  dependency check of \<^verbatim>\<open>init\<close>.
\<close>

subsection \<open>Go's integers and strings\<close>

text \<open>
  Go's \<^verbatim>\<open>int\<close> is taken as 64 bits wide: \<open>+\<close> wraps around, \<open>sint\<close> reads the signed
  value. Go's \<^verbatim>\<open>%\<close> truncates towards zero, which is \<open>smod\<close> on the signed value.
\<close>

type_synonym go_int = "64 word"

type_synonym path = string

text \<open>\<^verbatim>\<open>fmt.Sprintf("%d", n)\<close>: the signed decimal numeral.\<close>

fun digits :: "nat \<Rightarrow> string" where
  "digits n =
     (if n < 10 then [char_of (48 + n)]
      else digits (n div 10) @ [char_of (48 + n mod 10)])"

declare digits.simps [simp del]

definition fmt_d :: "go_int \<Rightarrow> string" where
  "fmt_d n =
     (if sint n < 0 then CHR ''-'' # digits (nat (- sint n)) else digits (nat (sint n)))"

subsection \<open>Errors\<close>

text \<open>
  A Go \<^verbatim>\<open>error\<close> value that is \<^verbatim>\<open>nil\<close> is \<open>None\<close>. The errors that the program builds
  with \<^verbatim>\<open>fmt.Errorf\<close> keep what they wrap (\<^verbatim>\<open>%w\<close>) or print (\<^verbatim>\<open>%s\<close>) as arguments.
\<close>

datatype error =
    OsError string
      \<comment> \<open>an error of the operating system or of a library, with its message\<close>
  | ExitStatus nat
      \<comment> \<open>\<^verbatim>\<open>*exec.ExitError\<close>: the process ran and did not exit with status 0\<close>
  | ExecAlreadyStarted
      \<comment> \<open>\<^verbatim>\<open>exec: already started\<close>\<close>
  | InputMissing path
      \<comment> \<open>\<^verbatim>\<open>input file does not exist: %s\<close>\<close>
  | TempDirFailed error
      \<comment> \<open>\<^verbatim>\<open>failed to create temp directory: %w\<close>\<close>
  | ExtractFramesFailed error
      \<comment> \<open>\<^verbatim>\<open>failed to extract frames: %w\<close>\<close>
  | NoFramesExtracted
      \<comment> \<open>\<^verbatim>\<open>no frames extracted from WebP\<close>\<close>
  | FrameDimensionsFailed error
      \<comment> \<open>\<^verbatim>\<open>failed to get frame dimensions: %w\<close>\<close>
  | CreateVideoFailed error
      \<comment> \<open>\<^verbatim>\<open>ffmpeg failed to create video: %w\<close>\<close>
  | FfmpegFailedOutput error string
      \<comment> \<open>\<^verbatim>\<open>ffmpeg failed: %w\nOutput: %s\<close>\<close>
  | FfmpegFailed error
      \<comment> \<open>\<^verbatim>\<open>ffmpeg failed: %w\<close>\<close>

subsection \<open>The world outside the program\<close>

text \<open>
  The file system is the list of the paths that exist. A run of an external process either
  fails to start, or exits with a status, having written its output and left the file
  system in some state. The calls that the program makes to the outside are logged in
  the order they happen.
\<close>

datatype proc_result =
    StartFailed string
  | Exited nat string "path list"
      \<comment> \<open>exit status, combined output, the files after the run\<close>

datatype syscall =
    Stat path
  | Open path
  | MkdirTemp
  | Exec string "string list"
  | Glob string
  | RemoveAll path

record world =
  openFile :: "path \<Rightarrow> error option"
  decodeConfig :: "path \<Rightarrow> error + (go_int \<times> go_int)"
  mkdirTemp :: "error + path"
  process :: "string \<Rightarrow> string list \<Rightarrow> path list \<Rightarrow> proc_result"

record state =
  files :: "path list"
  trace :: "syscall list"

definition log :: "syscall \<Rightarrow> state \<Rightarrow> state" where
  "log c s = s\<lparr>trace := trace s @ [c]\<rparr>"

subsection \<open>Library calls: path/filepath, strings, os, io/ioutil\<close>

text \<open>
  Paths are compared as strings, with \<^verbatim>\<open>/\<close> as the separator. \<^verbatim>\<open>filepath.Join\<close> of a
  clean directory name and a file name puts a separator between them.
\<close>

definition filepath_Join :: "path \<Rightarrow> string \<Rightarrow> path" where
  "filepath_Join dir name = dir @ ''/'' @ name"

text \<open>
  \<^verbatim>\<open>filepath.Ext\<close> walks back from the end of the path to the last dot of the last
  element. \<open>ext_scan\<close> is its loop: the first argument is what is still to the left, read
  backwards, the second what has been passed.
\<close>

fun ext_scan :: "string \<Rightarrow> string \<Rightarrow> string" where
  "ext_scan [] acc = []"
| "ext_scan (c # rs) acc =
     (if c = CHR ''/'' then []
      else if c = CHR ''.'' then c # acc
      else ext_scan rs (c # acc))"

definition filepath_Ext :: "path \<Rightarrow> string" where
  "filepath_Ext p = ext_scan (rev p) []"

definition strings_HasSuffix :: "string \<Rightarrow> string \<Rightarrow> bool" where
  "strings_HasSuffix s suffix \<longleftrightarrow>
     length suffix \<le> length s \<and> drop (length s - length suffix) s = suffix"

definition strings_TrimSuffix :: "string \<Rightarrow> string \<Rightarrow> string" where
  "strings_TrimSuffix s suffix =
     (if strings_HasSuffix s suffix then take (length s - length suffix) s else s)"

text \<open>
  \<^verbatim>\<open>os.RemoveAll\<close> removes the path and everything below it. The program ignores its
  result.
\<close>

definition below :: "path \<Rightarrow> path \<Rightarrow> bool" where
  "below dir p \<longleftrightarrow> take (length dir + 1) p = dir @ ''/''"

definition os_RemoveAll :: "path \<Rightarrow> state \<Rightarrow> state" where
  "os_RemoveAll dir s =
     log (RemoveAll dir) (s\<lparr>files := filter (\<lambda>p. p \<noteq> dir \<and> \<not> below dir p) (files s)\<rparr>)"

text \<open>\<^verbatim>\<open>ioutil.TempDir\<close> creates a directory and returns its name, or fails.\<close>

definition ioutil_TempDir :: "world \<Rightarrow> state \<Rightarrow> (error + path) \<times> state" where
  "ioutil_TempDir w s =
     (case mkdirTemp w of
        Inl e \<Rightarrow> (Inl e, log MkdirTemp s)
      | Inr dir \<Rightarrow> (Inr dir, log MkdirTemp (s\<lparr>files := dir # files s\<rparr>)))"

text \<open>
  \<^verbatim>\<open>filepath.Glob\<close> on the pattern \<^verbatim>\<open>frame_*.png\<close> inside a directory: the entries of the
  directory whose names begin with \<^verbatim>\<open>frame_\<close> and end with \<^verbatim>\<open>.png\<close> after it, in the
  order of their names as byte strings. The star matches no separator. The name of the
  scratch directory is taken to hold no pattern character, so that the pattern is well
  formed and no error is returned.
\<close>

definition match_frame :: "string \<Rightarrow> bool" where
  "match_frame name \<longleftrightarrow>
     10 \<le> length name \<and> take 6 name = ''frame_''
       \<and> drop (length name - 4) name = ''.png'' \<and> CHR ''/'' \<notin> set name"

definition frame_files :: "path \<Rightarrow> path list \<Rightarrow> path list" where
  "frame_files dir fs =
     filter (\<lambda>p. below dir p \<and> match_frame (drop (length dir + 1) p)) fs"

definition filepath_Glob :: "path \<Rightarrow> state \<Rightarrow> (path list \<times> error option) \<times> state" where
  "filepath_Glob dir s =
     ((sort (remdups (frame_files dir (files s))), None),
      log (Glob (filepath_Join dir ''frame_*.png'')) s)"

subsection \<open>Library calls: os/exec\<close>

text \<open>
  An \<^verbatim>\<open>exec.Cmd\<close> remembers whether it has a process (\<^verbatim>\<open>Process != nil\<close>) and whether its
  output streams are set. \<^verbatim>\<open>Start\<close>, and so \<^verbatim>\<open>Run\<close>, refuses a command that has a
  process already; \<^verbatim>\<open>CombinedOutput\<close> refuses one whose streams are set, sets them to a
  buffer and calls \<^verbatim>\<open>Run\<close>.
\<close>

record cmd =
  cmd_name :: string
  cmd_args :: "string list"
  cmd_stdout :: bool
  cmd_stderr :: bool
  cmd_process :: bool

definition exec_Command :: "string \<Rightarrow> string list \<Rightarrow> cmd" where
  "exec_Command name args =
     \<lparr>cmd_name = name, cmd_args = args, cmd_stdout = False, cmd_stderr = False,
      cmd_process = False\<rparr>"

definition cmd_Run :: "world \<Rightarrow> cmd \<Rightarrow> state \<Rightarrow> (error option \<times> string) \<times> cmd \<times> state" where
  "cmd_Run w c s =
     (if cmd_process c then ((Some ExecAlreadyStarted, []), c, s)
      else
        (case process w (cmd_name c) (cmd_args c) (files s) of
           StartFailed msg \<Rightarrow>
             ((Some (OsError msg), []), c, log (Exec (cmd_name c) (cmd_args c)) s)
         | Exited status out fs \<Rightarrow>
             ((if status = 0 then None else Some (ExitStatus status), out),
              c\<lparr>cmd_process := True\<rparr>,
              log (Exec (cmd_name c) (cmd_args c)) (s\<lparr>files := fs\<rparr>))))"

definition cmd_CombinedOutput ::
  "world \<Rightarrow> cmd \<Rightarrow> state \<Rightarrow> (string \<times> error option) \<times> cmd \<times> state" where
  "cmd_CombinedOutput w c s =
     (if cmd_stdout c then (([], Some (OsError ''exec: Stdout already set'')), c, s)
      else if cmd_stderr c then (([], Some (OsError ''exec: Stderr already set'')), c, s)
      else
        (case cmd_Run w (c\<lparr>cmd_stdout := True, cmd_stderr := True\<rparr>) s of
           ((err, out), c', s') \<Rightarrow> ((out, err), c', s')))"

text \<open>
  What \<^verbatim>\<open>Run\<close> makes of the result of a process: the error that it returns, \<^verbatim>\<open>nil\<close> for
  exit status 0 only, and the files that are there afterwards, those before where the
  process did not start.
\<close>

definition run_error :: "proc_result \<Rightarrow> error option" where
  "run_error p =
     (case p of
        StartFailed msg \<Rightarrow> Some (OsError msg)
      | Exited status out fs \<Rightarrow> if status = 0 then None else Some (ExitStatus status))"

definition files_after :: "proc_result \<Rightarrow> path list \<Rightarrow> path list" where
  "files_after p before = (case p of StartFailed msg \<Rightarrow> before | Exited status out fs \<Rightarrow> fs)"

subsection \<open>makeEven, getWebPDimensions, getPNGDimensions\<close>

definition makeEven :: "go_int \<Rightarrow> go_int" where
  "makeEven n = (if sint n smod 2 \<noteq> 0 then n + 1 else n)"

definition getWebPDimensions ::
  "world \<Rightarrow> path \<Rightarrow> state \<Rightarrow> (go_int \<times> go_int \<times> error option) \<times> state" where
  "getWebPDimensions w filename s =
     (case openFile w filename of
        Some err \<Rightarrow> ((0, 0, Some err), log (Open filename) s)
      | None \<Rightarrow>
          (case decodeConfig w filename of
             Inl err \<Rightarrow> ((0, 0, Some err), log (Open filename) s)
           | Inr (width, height) \<Rightarrow> ((width, height, None), log (Open filename) s)))"

definition getPNGDimensions ::
  "world \<Rightarrow> path \<Rightarrow> state \<Rightarrow> (go_int \<times> go_int \<times> error option) \<times> state" where
  "getPNGDimensions w filename s =
     (case openFile w filename of
        Some err \<Rightarrow> ((0, 0, Some err), log (Open filename) s)
      | None \<Rightarrow>
          (case decodeConfig w filename of
             Inl err \<Rightarrow> ((0, 0, Some err), log (Open filename) s)
           | Inr (width, height) \<Rightarrow> ((width, height, None), log (Open filename) s)))"

subsection \<open>convertDirectly\<close>

text \<open>
  \<open>directArgs\<close> is the argument list that lines 194 to 230 of \<^verbatim>\<open>convertDirectly\<close> build,
  from the dimensions as they are after line 191.
\<close>

definition scaleFilter :: "go_int \<Rightarrow> go_int \<Rightarrow> string" where
  "scaleFilter adjustedWidth adjustedHeight =
     ''scale='' @ fmt_d adjustedWidth @ '':'' @ fmt_d adjustedHeight @ '':flags=lanczos''"

text \<open>The filter of line 221; \<open>CHR 0x27\<close> is the single quote.\<close>

definition truncFilter :: string where
  "truncFilter = ''scale='' @ [CHR 0x27] @ ''trunc(iw/2)*2:trunc(ih/2)*2'' @ [CHR 0x27]"

definition outputOptions :: "path \<Rightarrow> string list" where
  "outputOptions output = [''-preset'', ''medium'', ''-movflags'', ''+faststart'', ''-y'', output]"

definition directArgs ::
  "path \<Rightarrow> path \<Rightarrow> go_int \<Rightarrow> string \<Rightarrow> go_int \<Rightarrow> go_int \<Rightarrow> string list" where
  "directArgs input output fps bitrate width height =
     (let args = [''-f'', ''webp_pipe'', ''-i'', input, ''-c:v'', ''libx264'',
                  ''-pix_fmt'', ''yuv420p'', ''-r'', fmt_d fps, ''-b:v'', bitrate];
          args =
            (if 0 < sint width \<and> 0 < sint height then
               (let adjustedWidth = makeEven width; adjustedHeight = makeEven height in
                if adjustedWidth \<noteq> width \<or> adjustedHeight \<noteq> height
                then args @ [''-vf'', scaleFilter adjustedWidth adjustedHeight]
                else args)
             else args @ [''-vf'', truncFilter])
      in args @ outputOptions output)"

definition convertDirectly ::
  "world \<Rightarrow> path \<Rightarrow> path \<Rightarrow> go_int \<Rightarrow> string \<Rightarrow> bool \<Rightarrow> state \<Rightarrow> error option \<times> state" where
  "convertDirectly w input output fps bitrate verbose s =
     (case getWebPDimensions w input s of
        ((width, height, err), s) \<Rightarrow>
          (let (width, height) = (if err \<noteq> None then (0, 0) else (width, height));
               cmd = exec_Command ''ffmpeg'' (directArgs input output fps bitrate width height)
           in
           if verbose then
             (case cmd_Run w (cmd\<lparr>cmd_stdout := True, cmd_stderr := True\<rparr>) s of
                ((err, out), cmd, s) \<Rightarrow>
                  (case err of
                     Some e \<Rightarrow> if \<not> verbose then (Some (FfmpegFailed e), s) else (None, s)
                   | None \<Rightarrow> (None, s)))
           else
             (case cmd_CombinedOutput w cmd s of
                ((cmdOutput, err), cmd, s) \<Rightarrow>
                  (case err of
                     Some e \<Rightarrow> (Some (FfmpegFailedOutput e cmdOutput), s)
                   | None \<Rightarrow>
                       (case cmd_Run w cmd s of
                          ((err, out), cmd, s) \<Rightarrow>
                            (case err of
                               Some e \<Rightarrow>
                                 if \<not> verbose then (Some (FfmpegFailed e), s) else (None, s)
                             | None \<Rightarrow> (None, s)))))))"

subsection \<open>convertViaExtraction\<close>

text \<open>
  \<open>framePattern\<close>, \<open>extractArgs\<close> and \<open>reassembleArgs\<close> are the values of lines 90, 94
  and 147 to 167. The function is in three parts. \<open>extractFrames\<close> is lines 90 to 116:
  the extraction by \<^verbatim>\<open>ffmpeg\<close> and, where that fails, by \<^verbatim>\<open>convert\<close>; it returns the
  error of line 114 or \<open>None\<close>. \<open>reassemble\<close> is lines 128 to 182, reached with a list of
  frames that is not empty. \<open>convertViaExtraction\<close> is the rest: the scratch directory,
  the search for the frames, and the deferred \<^verbatim>\<open>os.RemoveAll(tempDir)\<close> of line 83, run
  when the body has returned, whatever it returned.
\<close>

definition framePattern :: "path \<Rightarrow> string" where
  "framePattern tempDir = filepath_Join tempDir ''frame_%03d.png''"

definition extractArgs :: "path \<Rightarrow> path \<Rightarrow> string list" where
  "extractArgs input tempDir = [''-i'', input, ''-vsync'', ''0'', framePattern tempDir]"

definition reassembleArgs ::
  "path \<Rightarrow> path \<Rightarrow> go_int \<Rightarrow> string \<Rightarrow> go_int \<Rightarrow> go_int \<Rightarrow> string list" where
  "reassembleArgs tempDir output fps bitrate width height =
     (let adjustedWidth = makeEven width; adjustedHeight = makeEven height;
          args = [''-framerate'', fmt_d fps, ''-i'', filepath_Join tempDir ''frame_%03d.png'',
                  ''-c:v'', ''libx264'', ''-pix_fmt'', ''yuv420p'', ''-b:v'', bitrate];
          args =
            (if adjustedWidth \<noteq> width \<or> adjustedHeight \<noteq> height
             then args @ [''-vf'', scaleFilter adjustedWidth adjustedHeight]
             else args)
      in args @ outputOptions output)"

definition reassemble ::
  "world \<Rightarrow> path \<Rightarrow> go_int \<Rightarrow> string \<Rightarrow> bool \<Rightarrow> path \<Rightarrow> path list \<Rightarrow> state
    \<Rightarrow> error option \<times> state" where
  "reassemble w output fps bitrate verbose tempDir frames s =
     (let firstFrame = frames ! 0 in
      case getPNGDimensions w firstFrame s of
        ((width, height, err), s) \<Rightarrow>
          (case err of
             Some e \<Rightarrow> (Some (FrameDimensionsFailed e), s)
           | None \<Rightarrow>
               (let cmd = exec_Command ''ffmpeg''
                            (reassembleArgs tempDir output fps bitrate width height);
                    cmd = (if verbose then cmd\<lparr>cmd_stdout := True, cmd_stderr := True\<rparr>
                           else cmd)
                in case cmd_Run w cmd s of
                     ((err, out), cmd, s) \<Rightarrow>
                       (case err of
                          Some e \<Rightarrow> (Some (CreateVideoFailed e), s)
                        | None \<Rightarrow> (None, s)))))"

definition extractFrames ::
  "world \<Rightarrow> path \<Rightarrow> bool \<Rightarrow> path \<Rightarrow> state \<Rightarrow> error option \<times> state" where
  "extractFrames w input verbose tempDir s =
     (let extractCmd = exec_Command ''ffmpeg'' (extractArgs input tempDir);
          extractCmd = (if verbose then extractCmd\<lparr>cmd_stdout := True, cmd_stderr := True\<rparr>
                        else extractCmd)
      in case cmd_Run w extractCmd s of
           ((err, out), extractCmd, s) \<Rightarrow>
             (case err of
                None \<Rightarrow> (None, s)
              | Some _ \<Rightarrow>
                  (let convertCmd =
                         exec_Command ''convert'' [input, ''-coalesce'', framePattern tempDir]
                   in case cmd_Run w convertCmd s of
                        ((err, out), convertCmd, s) \<Rightarrow>
                          (case err of
                             Some e \<Rightarrow> (Some (ExtractFramesFailed e), s)
                           | None \<Rightarrow> (None, s)))))"

definition convertViaExtraction ::
  "world \<Rightarrow> path \<Rightarrow> path \<Rightarrow> go_int \<Rightarrow> string \<Rightarrow> bool \<Rightarrow> state \<Rightarrow> error option \<times> state" where
  "convertViaExtraction w input output fps bitrate verbose s =
     (case ioutil_TempDir w s of
        (Inl err, s) \<Rightarrow> (Some (TempDirFailed err), s)
      | (Inr tempDir, s) \<Rightarrow>
          (case
             (case extractFrames w input verbose tempDir s of
                (Some e, s) \<Rightarrow> (Some e, s)
              | (None, s) \<Rightarrow>
                  (case filepath_Glob tempDir s of
                     ((frames, err), s) \<Rightarrow>
                       if err \<noteq> None \<or> length frames = 0 then (Some NoFramesExtracted, s)
                       else reassemble w output fps bitrate verbose tempDir frames s))
           of (result, s) \<Rightarrow> (result, os_RemoveAll tempDir s)))"

text \<open>
  The names of the frame files. Both tools write the frames to the pattern of line 90,
  with \<^verbatim>\<open>%03d\<close> replaced by the number of the frame in at least three digits, as
  \<^verbatim>\<open>printf\<close> does.
\<close>

definition fmt_03d :: "nat \<Rightarrow> string" where
  "fmt_03d n = replicate (3 - length (digits n)) (CHR ''0'') @ digits n"

definition frame_path :: "path \<Rightarrow> nat \<Rightarrow> path" where
  "frame_path tempDir n = filepath_Join tempDir (''frame_'' @ fmt_03d n @ ''.png'')"

subsection \<open>convertWebPToMP4 and the default output name of main\<close>

text \<open>\<^verbatim>\<open>os.Stat\<close> reports that the input does not exist when its path is not in the file system.\<close>

definition convertWebPToMP4 ::
  "world \<Rightarrow> path \<Rightarrow> path \<Rightarrow> go_int \<Rightarrow> string \<Rightarrow> bool \<Rightarrow> string \<Rightarrow> state
    \<Rightarrow> error option \<times> state" where
  "convertWebPToMP4 w input output fps bitrate verbose method s =
     (if input \<notin> set (files s) then (Some (InputMissing input), log (Stat input) s)
      else if method = ''auto'' then
        (case convertDirectly w input output fps bitrate verbose (log (Stat input) s) of
           (Some err, s) \<Rightarrow> convertViaExtraction w input output fps bitrate verbose s
         | (None, s) \<Rightarrow> (None, s))
      else if method = ''extract'' then
        convertViaExtraction w input output fps bitrate verbose (log (Stat input) s)
      else convertDirectly w input output fps bitrate verbose (log (Stat input) s))"

text \<open>Lines 42 to 45 of \<^verbatim>\<open>main\<close>: the output name when the flag \<^verbatim>\<open>-o\<close> left it empty.\<close>

definition main_output :: "path \<Rightarrow> path \<Rightarrow> path" where
  "main_output input output =
     (if output = [] then
        (let ext = filepath_Ext input in strings_TrimSuffix input ext @ ''.mp4'')
      else output)"

subsection \<open>The calls of a run, and a sample world\<close>

text \<open>The calls made between a state and a later one.\<close>

definition events :: "state \<Rightarrow> state \<Rightarrow> syscall list" where
  "events s s' = drop (length (trace s)) (trace s')"

text \<open>
  A world to run the program in: every file opens and has the given dimensions, the scratch
  directory is \<^verbatim>\<open>/tmp/webp2mp4_7\<close>, and the tools exit with the given statuses. An
  extraction that exits with 0 leaves the given frame files; an encoding that exits with 0
  leaves the output file, its last argument.
\<close>

definition sample_world ::
  "nat \<Rightarrow> nat \<Rightarrow> nat \<Rightarrow> path list \<Rightarrow> (error + go_int \<times> go_int) \<Rightarrow> world" where
  "sample_world encode extract coalesce frames dims =
     \<lparr>openFile = (\<lambda>p. None),
      decodeConfig = (\<lambda>p. dims),
      mkdirTemp = Inr ''/tmp/webp2mp4_7'',
      process = (\<lambda>name args fs.
        if name = ''convert'' then
          Exited coalesce ''convert output'' (if coalesce = 0 then frames @ fs else fs)
        else if take 1 args = [''-i''] then
          Exited extract ''ffmpeg output'' (if extract = 0 then frames @ fs else fs)
        else Exited encode ''ffmpeg output'' (if encode = 0 then last args # fs else fs))\<rparr>"

definition sample_frames :: "path list" where
  "sample_frames = [''/tmp/webp2mp4_7/frame_002.png'', ''/tmp/webp2mp4_7/frame_001.png'']"

definition sample_state :: state where
  "sample_state = \<lparr>files = [''anim.webp''], trace = []\<rparr>"

section \<open>Properties\<close>

subsection \<open>Even-dimension correction\<close>

lemma smod_2_odd: "(k::int) smod 2 \<noteq> 0 \<longleftrightarrow> odd k"
  by (cases "k = 0") (simp_all add: signed_modulo_int_def mod_2_eq_odd sgn_if)

lemma even_sint_go_int: "even (sint (n::go_int)) \<longleftrightarrow> even n"
  using bit_sint_iff [of n 0] by (simp add: bit_0)

lemma makeEven_word: "makeEven n = (if odd n then n + 1 else n)"
  by (simp add: makeEven_def smod_2_odd even_sint_go_int)

lemma even_makeEven: "even (sint (makeEven n))"
  by (simp add: makeEven_word even_sint_go_int)

lemma sint_bounds: "- (2 ^ 63) \<le> sint (n::go_int) \<and> sint n < 2 ^ 63"
  using sint_lt [of n] sint_ge [of n] by simp

lemma sint_succ:
  assumes "sint (n::go_int) \<noteq> 2 ^ 63 - 1"
  shows "sint (n + 1) = sint n + 1"
proof -
  have "- (2 ^ 63) \<le> sint n + 1" "sint n + 1 < 2 ^ 63"
    using sint_bounds [of n] assms by simp_all
  then have "signed_take_bit 63 (sint n + 1) = sint n + 1"
    by (simp add: signed_take_bit_int_eq_self)
  then show ?thesis by (simp add: sint_word_add)
qed

lemma sint_makeEven:
  "sint n \<noteq> 2 ^ 63 - 1 \<Longrightarrow> sint (makeEven n) = (if odd (sint n) then sint n + 1 else sint n)"
  by (simp add: makeEven_word even_sint_go_int sint_succ)

lemma sint_max_word: "sint (n::go_int) = 2 ^ 63 - 1 \<Longrightarrow> sint (n + 1) = - (2 ^ 63)"
proof -
  assume a: "sint n = 2 ^ 63 - 1"
  have "signed_take_bit 63 (2 ^ 63 :: int) = - (2 ^ 63)"
    by (simp add: signed_take_bit_eq_take_bit_shift)
  then show ?thesis using a by (simp add: sint_word_add)
qed

lemma makeEven_not_minus_one: "sint (makeEven n) \<noteq> sint n - 1"
proof (cases "sint n = 2 ^ 63 - 1")
  case True
  then have "odd (sint n)" by simp
  then show ?thesis using True sint_max_word [OF True]
    by (simp add: makeEven_word even_sint_go_int)
next
  case False
  then show ?thesis by (simp add: sint_makeEven)
qed

lemma makeEven_not_plus_two: "sint (makeEven n) \<noteq> sint n + 2"
proof (cases "sint n = 2 ^ 63 - 1")
  case True
  then have "odd (sint n)" by simp
  then show ?thesis using True sint_max_word [OF True]
    by (simp add: makeEven_word even_sint_go_int)
next
  case False
  then show ?thesis by (simp add: sint_makeEven)
qed

text \<open>
  Claim C3. For a pair of dimensions of which at least one is odd, both corrected
  dimensions are even; each is the original where that was even and the original plus
  one where it was odd, in Go's arithmetic and, below the largest \<^verbatim>\<open>int\<close>, as numbers;
  none is the original minus one or the original plus two.
\<close>

theorem makeEven_corrected_dimensions:
  assumes "odd (sint width) \<or> odd (sint height)"
  shows "even (sint (makeEven width)) \<and> even (sint (makeEven height))
    \<and> makeEven width = (if odd (sint width) then width + 1 else width)
    \<and> makeEven height = (if odd (sint height) then height + 1 else height)
    \<and> (sint width < 2 ^ 63 - 1 \<longrightarrow>
         sint (makeEven width) = (if odd (sint width) then sint width + 1 else sint width))
    \<and> (sint height < 2 ^ 63 - 1 \<longrightarrow>
         sint (makeEven height) = (if odd (sint height) then sint height + 1 else sint height))
    \<and> sint (makeEven width) \<noteq> sint width - 1 \<and> sint (makeEven width) \<noteq> sint width + 2
    \<and> sint (makeEven height) \<noteq> sint height - 1 \<and> sint (makeEven height) \<noteq> sint height + 2"
  using even_makeEven [of width] even_makeEven [of height]
    makeEven_not_minus_one [of width] makeEven_not_minus_one [of height]
    makeEven_not_plus_two [of width] makeEven_not_plus_two [of height]
    sint_makeEven [of width] sint_makeEven [of height]
  by (simp add: makeEven_word even_sint_go_int)

theorem makeEven_corrected_dimensions_witness:
  "sint (makeEven 641) = 642 \<and> sint (makeEven 480) = 480
    \<and> even (sint (makeEven 641)) \<and> even (sint (makeEven 480))"
  using makeEven_corrected_dimensions [of 641 480] by simp

subsection \<open>The steps of a run\<close>

lemma files_log [simp]: "files (log c s) = files s"
  by (simp add: log_def)

lemma trace_log [simp]: "trace (log c s) = trace s @ [c]"
  by (simp add: log_def)

lemma events_append [simp]: "trace s' = trace s @ evs \<Longrightarrow> events s s' = evs"
  by (simp add: events_def)

lemma fmt_d_30: "fmt_d 30 = ''30''"
  by code_simp

lemma getWebPDimensions_eq:
  "fst (getWebPDimensions w input s) = r \<Longrightarrow>
   getWebPDimensions w input s = (r, log (Open input) s)"
  by (auto simp: getWebPDimensions_def split: option.splits sum.splits)

lemma getPNGDimensions_eq:
  "fst (getPNGDimensions w frame s) = r \<Longrightarrow>
   getPNGDimensions w frame s = (r, log (Open frame) s)"
  by (auto simp: getPNGDimensions_def split: option.splits sum.splits)

lemma convertDirectly_run:
  assumes probe: "fst (getWebPDimensions w input s) = (wd, ht, err)"
    and args: "args = directArgs input output fps bitrate
                 (if err \<noteq> None then 0 else wd) (if err \<noteq> None then 0 else ht)"
  shows "convertDirectly w input output fps bitrate verbose s =
     (case process w ''ffmpeg'' args (files s) of
        StartFailed msg \<Rightarrow>
          (if verbose then None else Some (FfmpegFailedOutput (OsError msg) []),
           log (Exec ''ffmpeg'' args) (log (Open input) s))
      | Exited status out fs \<Rightarrow>
          (if verbose then None
           else if status = 0 then Some (FfmpegFailed ExecAlreadyStarted)
           else Some (FfmpegFailedOutput (ExitStatus status) out),
           log (Exec ''ffmpeg'' args) (log (Open input) s\<lparr>files := fs\<rparr>)))"
proof -
  note g = getWebPDimensions_eq [OF probe]
  show ?thesis
  proof (cases "process w ''ffmpeg'' args (files s)")
    case (StartFailed msg)
    then show ?thesis using g
      by (cases err; cases verbose)
        (simp_all add: convertDirectly_def args cmd_CombinedOutput_def cmd_Run_def
          exec_Command_def Let_def)
  next
    case (Exited status out fs)
    then show ?thesis using g
      by (cases err; cases verbose)
        (simp_all add: convertDirectly_def args cmd_CombinedOutput_def cmd_Run_def
          exec_Command_def Let_def)
  qed
qed

lemma convertDirectly_verbose:
  "fst (convertDirectly w input output fps bitrate True s) = None"
proof -
  obtain wd ht err where "fst (getWebPDimensions w input s) = (wd, ht, err)"
    by (metis prod_cases3)
  from convertDirectly_run [OF this refl] show ?thesis
    by (simp split: proc_result.splits)
qed

lemma convertDirectly_quiet:
  "fst (convertDirectly w input output fps bitrate False s) \<noteq> None"
proof -
  obtain wd ht err where "fst (getWebPDimensions w input s) = (wd, ht, err)"
    by (metis prod_cases3)
  from convertDirectly_run [OF this refl] show ?thesis
    by (simp split: proc_result.splits)
qed

lemma convertDirectly_trace:
  assumes "fst (getWebPDimensions w input s) = (wd, ht, err)"
  shows "trace (snd (convertDirectly w input output fps bitrate verbose s)) =
     trace s @ [Open input, Exec ''ffmpeg'' (directArgs input output fps bitrate
        (if err \<noteq> None then 0 else wd) (if err \<noteq> None then 0 else ht))]"
proof -
  let ?args = "directArgs input output fps bitrate
        (if err \<noteq> None then 0 else wd) (if err \<noteq> None then 0 else ht)"
  show ?thesis
    using convertDirectly_run [OF assms refl]
    by (cases "process w ''ffmpeg'' ?args (files s)") simp_all
qed

subsection \<open>Direct Converter: the result against the exit status\<close>

text \<open>
  Claim C2. Direct Converter should return an error exactly when \<^verbatim>\<open>ffmpeg\<close> exits with a
  status other than 0. The code does not: without \<^verbatim>\<open>-v\<close>, a run in which \<^verbatim>\<open>ffmpeg\<close>
  exits with 0 ends in the error of line 248, since \<^verbatim>\<open>cmd.Run\<close> is called on the command
  that \<^verbatim>\<open>CombinedOutput\<close> has already run; with \<^verbatim>\<open>-v\<close>, a run in which \<^verbatim>\<open>ffmpeg\<close> exits
  with 1 returns \<^verbatim>\<open>nil\<close>, since line 247 drops the error. So it is in every world:
  without \<^verbatim>\<open>-v\<close> the result is always an error, with \<^verbatim>\<open>-v\<close> never.
\<close>

theorem convertDirectly_ignores_exit_status:
  "process (sample_world 0 0 0 sample_frames (Inr (640, 480))) ''ffmpeg''
      [''-f'', ''webp_pipe'', ''-i'', ''anim.webp'', ''-c:v'', ''libx264'', ''-pix_fmt'', ''yuv420p'',
       ''-r'', ''30'', ''-b:v'', ''2M'',
       ''-preset'', ''medium'', ''-movflags'', ''+faststart'', ''-y'', ''anim.mp4'']
      [''anim.webp'']
     = Exited 0 ''ffmpeg output'' [''anim.mp4'', ''anim.webp'']
   \<and> fst (convertDirectly (sample_world 0 0 0 sample_frames (Inr (640, 480)))
          ''anim.webp'' ''anim.mp4'' 30 ''2M'' False sample_state)
     = Some (FfmpegFailed ExecAlreadyStarted)
   \<and> process (sample_world 1 0 0 sample_frames (Inr (640, 480))) ''ffmpeg''
      [''-f'', ''webp_pipe'', ''-i'', ''anim.webp'', ''-c:v'', ''libx264'', ''-pix_fmt'', ''yuv420p'',
       ''-r'', ''30'', ''-b:v'', ''2M'',
       ''-preset'', ''medium'', ''-movflags'', ''+faststart'', ''-y'', ''anim.mp4'']
      [''anim.webp'']
     = Exited 1 ''ffmpeg output'' [''anim.webp'']
   \<and> fst (convertDirectly (sample_world 1 0 0 sample_frames (Inr (640, 480)))
          ''anim.webp'' ''anim.mp4'' 30 ''2M'' True sample_state)
     = None
   \<and> fst (convertDirectly w input output fps bitrate False s) \<noteq> None
   \<and> fst (convertDirectly w input output fps bitrate True s) = None"
  using convertDirectly_quiet [of w input "output" fps bitrate s]
    convertDirectly_verbose [of w input "output" fps bitrate s]
  by (simp add: convertDirectly_def getWebPDimensions_def cmd_CombinedOutput_def cmd_Run_def
      exec_Command_def log_def sample_world_def sample_state_def Let_def)

subsection \<open>The steps of Extraction Converter\<close>

lemma cmd_Run_events:
  "\<exists>evs. trace (snd (snd (cmd_Run w c s))) = trace s @ evs
     \<and> set evs \<subseteq> {Exec (cmd_name c) (cmd_args c)}"
  by (auto simp: cmd_Run_def split: proc_result.splits)

lemma extractFrames_result:
  "fst (extractFrames w input verbose d s) = None
   \<or> (\<exists>e. fst (extractFrames w input verbose d s) = Some (ExtractFramesFailed e))"
  by (auto simp: extractFrames_def cmd_Run_def exec_Command_def Let_def
      split: proc_result.splits)

lemma extractFrames_events:
  "\<exists>evs. trace (snd (extractFrames w input verbose d s)) = trace s @ evs
     \<and> set evs \<subseteq> {Exec ''ffmpeg'' (extractArgs input d),
                    Exec ''convert'' [input, ''-coalesce'', framePattern d]}"
  by (auto simp: extractFrames_def cmd_Run_def exec_Command_def Let_def
      split: proc_result.splits)

lemma cmd_Run_fresh:
  assumes "\<not> cmd_process c" and "p = process w (cmd_name c) (cmd_args c) (files s)"
  shows "fst (fst (cmd_Run w c s)) = run_error p
    \<and> snd (snd (cmd_Run w c s)) =
        log (Exec (cmd_name c) (cmd_args c)) (s\<lparr>files := files_after p (files s)\<rparr>)"
  using assms
  by (cases "process w (cmd_name c) (cmd_args c) (files s)")
    (simp_all add: cmd_Run_def run_error_def files_after_def)

lemma extractFrames_by_status:
  assumes primary: "primary = process w ''ffmpeg'' (extractArgs input d) (files s)"
    and fallback: "fallback = process w ''convert'' [input, ''-coalesce'', framePattern d]
                     (files_after primary (files s))"
  shows "extractFrames w input verbose d s =
     (if run_error primary = None then
        (None,
         log (Exec ''ffmpeg'' (extractArgs input d))
           (s\<lparr>files := files_after primary (files s)\<rparr>))
      else
        (case run_error fallback of
           None \<Rightarrow> None
         | Some e \<Rightarrow> Some (ExtractFramesFailed e),
         log (Exec ''convert'' [input, ''-coalesce'', framePattern d])
           (log (Exec ''ffmpeg'' (extractArgs input d)) s
              \<lparr>files := files_after fallback (files_after primary (files s))\<rparr>)))"
proof -
  let ?ea = "extractArgs input d"
  let ?ca = "[input, ''-coalesce'', framePattern d]"
  show ?thesis
  proof (cases "process w ''ffmpeg'' ?ea (files s)")
    case (StartFailed msg)
    then show ?thesis using assms
      by (cases "process w ''convert'' ?ca (files s)"; cases verbose)
        (simp_all add: extractFrames_def cmd_Run_def exec_Command_def Let_def
          run_error_def files_after_def log_def)
  next
    case (Exited status out fs)
    then show ?thesis using assms
      by (cases "process w ''convert'' ?ca fs"; cases verbose)
        (simp_all add: extractFrames_def cmd_Run_def exec_Command_def Let_def
          run_error_def files_after_def log_def)
  qed
qed


lemma reassemble_failed:
  assumes "fst (getPNGDimensions w (frames ! 0) s) = (wd, ht, Some e)"
  shows "reassemble w output fps bitrate verbose d frames s =
     (Some (FrameDimensionsFailed e), log (Open (frames ! 0)) s)"
  using getPNGDimensions_eq [OF assms] by (simp add: reassemble_def)

lemma reassemble_run:
  assumes "fst (getPNGDimensions w (frames ! 0) s) = (wd, ht, None)"
  shows "reassemble w output fps bitrate verbose d frames s =
     (case process w ''ffmpeg'' (reassembleArgs d output fps bitrate wd ht) (files s) of
        StartFailed msg \<Rightarrow>
          (Some (CreateVideoFailed (OsError msg)),
           log (Exec ''ffmpeg'' (reassembleArgs d output fps bitrate wd ht))
             (log (Open (frames ! 0)) s))
      | Exited status out fs \<Rightarrow>
          (if status = 0 then None else Some (CreateVideoFailed (ExitStatus status)),
           log (Exec ''ffmpeg'' (reassembleArgs d output fps bitrate wd ht))
             (log (Open (frames ! 0)) s\<lparr>files := fs\<rparr>)))"
  using getPNGDimensions_eq [OF assms]
  by (cases "process w ''ffmpeg'' (reassembleArgs d output fps bitrate wd ht) (files s)")
    (simp_all add: reassemble_def cmd_Run_def exec_Command_def Let_def)

lemma reassemble_events:
  "\<exists>evs. trace (snd (reassemble w output fps bitrate verbose d frames s)) = trace s @ evs
     \<and> MkdirTemp \<notin> set evs"
proof -
  obtain wd ht err where g: "fst (getPNGDimensions w (frames ! 0) s) = (wd, ht, err)"
    by (metis prod_cases3)
  show ?thesis
  proof (cases err)
    case None
    with g reassemble_run show ?thesis
      by (cases "process w ''ffmpeg'' (reassembleArgs d output fps bitrate wd ht) (files s)")
        simp_all
  next
    case (Some e)
    with g reassemble_failed show ?thesis by simp
  qed
qed


lemma convertViaExtraction_no_directory:
  "mkdirTemp w = Inl e \<Longrightarrow>
   convertViaExtraction w input output fps bitrate verbose s =
     (Some (TempDirFailed e), log MkdirTemp s)"
  by (simp add: convertViaExtraction_def ioutil_TempDir_def)

lemma convertViaExtraction_not_extracted:
  assumes "mkdirTemp w = Inr d"
    and "extractFrames w input verbose d (log MkdirTemp (s\<lparr>files := d # files s\<rparr>)) = (Some e, s')"
  shows "convertViaExtraction w input output fps bitrate verbose s = (Some e, os_RemoveAll d s')"
  using assms by (simp add: convertViaExtraction_def ioutil_TempDir_def)

lemma convertViaExtraction_no_frames:
  assumes "mkdirTemp w = Inr d"
    and "extractFrames w input verbose d (log MkdirTemp (s\<lparr>files := d # files s\<rparr>)) = (None, s')"
    and "frame_files d (files s') = []"
  shows "convertViaExtraction w input output fps bitrate verbose s =
     (Some NoFramesExtracted, os_RemoveAll d (log (Glob (filepath_Join d ''frame_*.png'')) s'))"
  using assms by (simp add: convertViaExtraction_def ioutil_TempDir_def filepath_Glob_def)

lemma convertViaExtraction_frames:
  assumes "mkdirTemp w = Inr d"
    and "extractFrames w input verbose d (log MkdirTemp (s\<lparr>files := d # files s\<rparr>)) = (None, s')"
    and "sort (remdups (frame_files d (files s'))) = firstFrame # rest"
    and "reassemble w output fps bitrate verbose d (firstFrame # rest)
           (log (Glob (filepath_Join d ''frame_*.png'')) s') = (r, s'')"
  shows "convertViaExtraction w input output fps bitrate verbose s = (r, os_RemoveAll d s'')"
  using assms by (simp add: convertViaExtraction_def ioutil_TempDir_def filepath_Glob_def)

lemma files_os_RemoveAll:
  "files (os_RemoveAll d s) = filter (\<lambda>p. p \<noteq> d \<and> \<not> below d p) (files s)"
  by (simp add: os_RemoveAll_def)

lemma trace_os_RemoveAll [simp]: "trace (os_RemoveAll d s) = trace s @ [RemoveAll d]"
  by (simp add: os_RemoveAll_def)

lemma convertViaExtraction_cleanup:
  assumes "mkdirTemp w = Inr d"
  shows "\<exists>s'. snd (convertViaExtraction w input output fps bitrate verbose s) = os_RemoveAll d s'"
  using assms
  by (auto simp: convertViaExtraction_def ioutil_TempDir_def split: prod.splits option.splits)

lemma convertViaExtraction_events:
  "\<exists>evs. trace (snd (convertViaExtraction w input output fps bitrate verbose s)) =
           trace s @ MkdirTemp # evs \<and> MkdirTemp \<notin> set evs"
proof (cases "mkdirTemp w")
  case (Inl e)
  then show ?thesis by (simp add: convertViaExtraction_no_directory)
next
  case (Inr d)
  let ?s1 = "log MkdirTemp (s\<lparr>files := d # files s\<rparr>)"
  obtain r s' where x: "extractFrames w input verbose d ?s1 = (r, s')"
    by (cases "extractFrames w input verbose d ?s1")
  obtain evs where evs: "trace s' = trace ?s1 @ evs" "MkdirTemp \<notin> set evs"
    using extractFrames_events [of w input verbose d ?s1] x by auto
  show ?thesis
  proof (cases r)
    case (Some e)
    with Inr x evs show ?thesis by (simp add: convertViaExtraction_not_extracted)
  next
    case None
    show ?thesis
    proof (cases "sort (remdups (frame_files d (files s')))")
      case Nil
      then have "set (sort (remdups (frame_files d (files s')))) = {}" by simp
      then have "frame_files d (files s') = []" by simp
      with Inr x None evs show ?thesis by (simp add: convertViaExtraction_no_frames)
    next
      case (Cons firstFrame rest)
      let ?s2 = "log (Glob (filepath_Join d ''frame_*.png'')) s'"
      obtain r' s'' where y: "reassemble w output fps bitrate verbose d (firstFrame # rest) ?s2 = (r', s'')"
        by (cases "reassemble w output fps bitrate verbose d (firstFrame # rest) ?s2")
      obtain evs' where evs': "trace s'' = trace ?s2 @ evs'" "MkdirTemp \<notin> set evs'"
        using reassemble_events [of w "output" fps bitrate verbose d "firstFrame # rest" ?s2] y
        by auto
      from Inr x None Cons y have
        "convertViaExtraction w input output fps bitrate verbose s = (r', os_RemoveAll d s'')"
        by (simp add: convertViaExtraction_frames)
      with evs evs' show ?thesis by simp
    qed
  qed
qed

lemma getPNGDimensions_state_free:
  "fst (getPNGDimensions w frame s) = fst (getPNGDimensions w frame s')"
  by (simp add: getPNGDimensions_def split: option.splits sum.splits prod.splits)

lemma reassembleArgs_head:
  "reassembleArgs d output fps bitrate wd ht \<noteq> extractArgs input d"
  by (simp add: reassembleArgs_def extractArgs_def Let_def)

lemma extraction_is_no_reassembly:
  assumes "set evs \<subseteq> {Exec ''ffmpeg'' (extractArgs input d),
                        Exec ''convert'' [input, ''-coalesce'', framePattern d]}"
  shows "Exec ''ffmpeg'' (reassembleArgs d output fps bitrate wd ht) \<notin> set evs"
  using assms reassembleArgs_head [of d "output" fps bitrate wd ht input] by auto

lemma first_of_sorted:
  assumes "sort (remdups xs) = x # rest"
  shows "x \<in> set xs \<and> (\<forall>y\<in>set xs. x \<le> y)"
proof -
  have "set (sort (remdups xs)) = set xs" by simp
  moreover have "sorted (sort (remdups xs))" by simp
  ultimately show ?thesis using assms by auto
qed

text \<open>The definitions that a run in the sample world unfolds.\<close>

lemmas sample_run =
  sample_world_def sample_state_def sample_frames_def extractFrames_def cmd_Run_def
  exec_Command_def log_def extractArgs_def framePattern_def filepath_Join_def Let_def
  frame_files_def below_def match_frame_def

subsection \<open>Extraction Converter: the scratch directory\<close>

text \<open>
  Claim C5. When Extraction Converter has returned, on whatever path, the scratch
  directory that it created is gone, and so is every file below it, the frame files among
  them: the last call of the run is the removal.
\<close>

theorem scratch_directory_removed:
  assumes "mkdirTemp w = Inr tempDir"
  shows "tempDir \<notin> set (files (snd (convertViaExtraction w input output fps bitrate verbose s)))
    \<and> (\<forall>p\<in>set (files (snd (convertViaExtraction w input output fps bitrate verbose s))).
          \<not> below tempDir p)
    \<and> frame_files tempDir
          (files (snd (convertViaExtraction w input output fps bitrate verbose s))) = []
    \<and> last (trace (snd (convertViaExtraction w input output fps bitrate verbose s))) =
          RemoveAll tempDir"
proof -
  obtain s' where
    "snd (convertViaExtraction w input output fps bitrate verbose s) = os_RemoveAll tempDir s'"
    using convertViaExtraction_cleanup [OF assms] by blast
  then show ?thesis
    by (simp add: files_os_RemoveAll frame_files_def filter_empty_conv)
qed

theorem scratch_directory_removed_witness:
  "mkdirTemp (sample_world 0 0 0 sample_frames (Inr (641, 480))) = Inr ''/tmp/webp2mp4_7''
   \<and> ''/tmp/webp2mp4_7'' \<notin> set (files (snd (convertViaExtraction
         (sample_world 0 0 0 sample_frames (Inr (641, 480)))
         ''anim.webp'' ''anim.mp4'' 30 ''2M'' False sample_state)))"
proof -
  have h: "mkdirTemp (sample_world 0 0 0 sample_frames (Inr (641, 480))) = Inr ''/tmp/webp2mp4_7''"
    by (simp add: sample_world_def)
  show ?thesis using h scratch_directory_removed [OF h] by simp
qed


subsection \<open>Extraction Converter: no frames, no dimensions\<close>

lemma no_reassembly_after_extraction:
  assumes x: "extractFrames w input verbose d (log MkdirTemp (s\<lparr>files := d # files s\<rparr>)) = (r, s')"
    and t: "trace s'' = trace s' @ evs"
    and evs: "set evs \<subseteq> {Glob g, Open f, RemoveAll d}"
  shows "Exec ''ffmpeg'' (reassembleArgs d output fps bitrate wd ht) \<notin> set (events s s'')"
proof -
  let ?s1 = "log MkdirTemp (s\<lparr>files := d # files s\<rparr>)"
  obtain xs where xs: "trace s' = trace ?s1 @ xs"
    "set xs \<subseteq> {Exec ''ffmpeg'' (extractArgs input d),
                 Exec ''convert'' [input, ''-coalesce'', framePattern d]}"
    using extractFrames_events [of w input verbose d ?s1] x by auto
  have "Exec ''ffmpeg'' (reassembleArgs d output fps bitrate wd ht) \<notin> set xs"
    using extraction_is_no_reassembly [OF xs(2)] .
  moreover have "events s s'' = MkdirTemp # xs @ evs"
    using xs(1) t by simp
  ultimately show ?thesis using evs by auto
qed

text \<open>
  Claim C6, as the code has it. When no frame file is in the scratch directory after the
  extraction, Extraction Converter runs no reassembly and returns an error. Where
  \<^verbatim>\<open>ffmpeg\<close> exited with 0, or it failed and \<^verbatim>\<open>convert\<close> exited with 0, this is the
  no-frames-extracted error, returned after the search for the frames. Where both failed,
  it is the failed-to-extract-frames error of line 114 around the error of \<^verbatim>\<open>convert\<close>,
  returned before any search. The calls of the run are as listed.
\<close>

theorem no_frames_no_reassembly:
  assumes dir: "mkdirTemp w = Inr tempDir"
    and primary: "primary = process w ''ffmpeg'' (extractArgs input tempDir) (tempDir # files s)"
    and fallback: "fallback = process w ''convert'' [input, ''-coalesce'', framePattern tempDir]
                     (files_after primary (tempDir # files s))"
    and none: "frame_files tempDir
                 (if run_error primary = None then files_after primary (tempDir # files s)
                  else files_after fallback (files_after primary (tempDir # files s))) = []"
  shows "fst (convertViaExtraction w input output fps bitrate verbose s) =
           (if run_error primary = None then Some NoFramesExtracted
            else case run_error fallback of
                   None \<Rightarrow> Some NoFramesExtracted
                 | Some e \<Rightarrow> Some (ExtractFramesFailed e))
    \<and> events s (snd (convertViaExtraction w input output fps bitrate verbose s)) =
           [MkdirTemp, Exec ''ffmpeg'' (extractArgs input tempDir)]
           @ (if run_error primary = None then []
              else [Exec ''convert'' [input, ''-coalesce'', framePattern tempDir]])
           @ (if run_error primary = None \<or> run_error fallback = None
              then [Glob (filepath_Join tempDir ''frame_*.png'')] else [])
           @ [RemoveAll tempDir]
    \<and> (\<forall>wd ht. Exec ''ffmpeg'' (reassembleArgs tempDir output fps bitrate wd ht) \<notin>
          set (events s (snd (convertViaExtraction w input output fps bitrate verbose s))))"
proof -
  let ?s1 = "log MkdirTemp (s\<lparr>files := tempDir # files s\<rparr>)"
  let ?ea = "extractArgs input tempDir"
  let ?ca = "[input, ''-coalesce'', framePattern tempDir]"
  let ?g = "Glob (filepath_Join tempDir ''frame_*.png'')"
  let ?run = "convertViaExtraction w input output fps bitrate verbose s"
  have x: "extractFrames w input verbose tempDir ?s1 =
     (if run_error primary = None then
        (None, log (Exec ''ffmpeg'' ?ea) (?s1\<lparr>files := files_after primary (files ?s1)\<rparr>))
      else
        (case run_error fallback of None \<Rightarrow> None | Some e \<Rightarrow> Some (ExtractFramesFailed e),
         log (Exec ''convert'' ?ca)
           (log (Exec ''ffmpeg'' ?ea) ?s1
              \<lparr>files := files_after fallback (files_after primary (files ?s1))\<rparr>)))"
    using primary fallback by (intro extractFrames_by_status) simp_all
  have r: "fst ?run =
           (if run_error primary = None then Some NoFramesExtracted
            else case run_error fallback of
                   None \<Rightarrow> Some NoFramesExtracted
                 | Some e \<Rightarrow> Some (ExtractFramesFailed e))
    \<and> events s (snd ?run) =
           [MkdirTemp, Exec ''ffmpeg'' ?ea]
           @ (if run_error primary = None then [] else [Exec ''convert'' ?ca])
           @ (if run_error primary = None \<or> run_error fallback = None then [?g] else [])
           @ [RemoveAll tempDir]"
  proof (cases "run_error primary")
    case None
    let ?s' = "log (Exec ''ffmpeg'' ?ea) (?s1\<lparr>files := files_after primary (files ?s1)\<rparr>)"
    have "extractFrames w input verbose tempDir ?s1 = (None, ?s')"
      using x None by simp
    moreover have "frame_files tempDir (files ?s') = []"
      using none None by simp
    ultimately have "?run = (Some NoFramesExtracted, os_RemoveAll tempDir (log ?g ?s'))"
      using dir by (rule convertViaExtraction_no_frames [rotated])
    with None show ?thesis by simp
  next
    case p: (Some e0)
    let ?s' = "log (Exec ''convert'' ?ca)
           (log (Exec ''ffmpeg'' ?ea) ?s1
              \<lparr>files := files_after fallback (files_after primary (files ?s1))\<rparr>)"
    show ?thesis
    proof (cases "run_error fallback")
      case None
      have "extractFrames w input verbose tempDir ?s1 = (None, ?s')"
        using x p None by simp
      moreover have "frame_files tempDir (files ?s') = []"
        using none p by simp
      ultimately have "?run = (Some NoFramesExtracted, os_RemoveAll tempDir (log ?g ?s'))"
        using dir by (rule convertViaExtraction_no_frames [rotated])
      with p None show ?thesis by simp
    next
      case (Some e)
      have "extractFrames w input verbose tempDir ?s1 = (Some (ExtractFramesFailed e), ?s')"
        using x p Some by simp
      with dir have "?run = (Some (ExtractFramesFailed e), os_RemoveAll tempDir ?s')"
        by (rule convertViaExtraction_not_extracted)
      with p Some show ?thesis by simp
    qed
  qed
  moreover have "Exec ''ffmpeg'' (reassembleArgs tempDir output fps bitrate wd ht) \<noteq>
      Exec ''ffmpeg'' ?ea" for wd ht
    using reassembleArgs_head [of tempDir "output" fps bitrate wd ht input] by simp
  ultimately show ?thesis by auto
qed

theorem no_frames_no_reassembly_witness:
  "fst (convertViaExtraction (sample_world 0 0 0 [] (Inr (640, 480)))
          ''anim.webp'' ''anim.mp4'' 30 ''2M'' False sample_state) = Some NoFramesExtracted
   \<and> fst (convertViaExtraction (sample_world 0 1 0 [] (Inr (640, 480)))
          ''anim.webp'' ''anim.mp4'' 30 ''2M'' False sample_state) = Some NoFramesExtracted
   \<and> events sample_state
        (snd (convertViaExtraction (sample_world 0 1 0 [] (Inr (640, 480)))
                ''anim.webp'' ''anim.mp4'' 30 ''2M'' False sample_state)) =
       [MkdirTemp,
        Exec ''ffmpeg'' [''-i'', ''anim.webp'', ''-vsync'', ''0'', ''/tmp/webp2mp4_7/frame_%03d.png''],
        Exec ''convert'' [''anim.webp'', ''-coalesce'', ''/tmp/webp2mp4_7/frame_%03d.png''],
        Glob ''/tmp/webp2mp4_7/frame_*.png'', RemoveAll ''/tmp/webp2mp4_7'']
   \<and> fst (convertViaExtraction (sample_world 0 1 1 [] (Inr (640, 480)))
          ''anim.webp'' ''anim.mp4'' 30 ''2M'' False sample_state)
       = Some (ExtractFramesFailed (ExitStatus 1))"
proof -
  let ?d = "''/tmp/webp2mp4_7''"
  have dir: "mkdirTemp (sample_world e1 e2 e3 [] (Inr (640, 480))) = Inr ?d"
    for e1 e2 e3
    by (simp add: sample_world_def)
  note defs = sample_world_def sample_state_def run_error_def files_after_def extractArgs_def
    framePattern_def filepath_Join_def frame_files_def below_def match_frame_def
  have none: "frame_files ?d
      (if run_error (process (sample_world 0 e2 e3 [] (Inr (640, 480))) ''ffmpeg''
             (extractArgs ''anim.webp'' ?d) (?d # files sample_state)) = None
       then files_after (process (sample_world 0 e2 e3 [] (Inr (640, 480))) ''ffmpeg''
             (extractArgs ''anim.webp'' ?d) (?d # files sample_state)) (?d # files sample_state)
       else files_after
             (process (sample_world 0 e2 e3 [] (Inr (640, 480))) ''convert''
                [''anim.webp'', ''-coalesce'', framePattern ?d]
                (files_after (process (sample_world 0 e2 e3 [] (Inr (640, 480)))
                   ''ffmpeg'' (extractArgs ''anim.webp'' ?d) (?d # files sample_state))
                   (?d # files sample_state)))
             (files_after (process (sample_world 0 e2 e3 [] (Inr (640, 480)))
                ''ffmpeg'' (extractArgs ''anim.webp'' ?d) (?d # files sample_state))
                (?d # files sample_state))) = []"
    for e2 e3
    by (simp add: defs)
  show ?thesis
    using no_frames_no_reassembly [OF dir refl refl none, of 0 0 "''anim.mp4''" 30 "''2M''" False]
      no_frames_no_reassembly [OF dir refl refl none, of 1 0 "''anim.mp4''" 30 "''2M''" False]
      no_frames_no_reassembly [OF dir refl refl none, of 1 1 "''anim.mp4''" 30 "''2M''" False]
    by (simp add: defs)
qed

theorem no_frames_error_counterexample:
  "frame_files ''/tmp/webp2mp4_7''
      (files (snd (extractFrames (sample_world 0 1 1 [] (Inr (640, 480))) ''anim.webp'' False
         ''/tmp/webp2mp4_7''
         (log MkdirTemp (sample_state\<lparr>files := ''/tmp/webp2mp4_7'' # files sample_state\<rparr>)))))
     = []
   \<and> fst (convertViaExtraction (sample_world 0 1 1 [] (Inr (640, 480)))
            ''anim.webp'' ''anim.mp4'' 30 ''2M'' False sample_state)
       = Some (ExtractFramesFailed (ExitStatus 1))
   \<and> fst (convertViaExtraction (sample_world 0 1 1 [] (Inr (640, 480)))
            ''anim.webp'' ''anim.mp4'' 30 ''2M'' False sample_state)
       \<noteq> Some NoFramesExtracted"
  by (simp add: sample_run convertViaExtraction_def ioutil_TempDir_def os_RemoveAll_def)


subsection \<open>The numbering of the frames\<close>

lemma digit_less:
  "a < 10 \<Longrightarrow> b < 10 \<Longrightarrow> (char_of (48 + a) :: char) < char_of (48 + b) \<longleftrightarrow> a < (b::nat)"
  by (simp add: less_char_def)

lemma digit_zero: "char_of (48::nat) = CHR ''0''"
  by (rule of_char_eqI [where ?'a = nat]) simp

lemma digits_one: "n < 10 \<Longrightarrow> digits n = [char_of (48 + n)]"
  by (simp add: digits.simps)

lemma digits_two:
  "10 \<le> n \<Longrightarrow> n < 100 \<Longrightarrow> digits n = [char_of (48 + n div 10), char_of (48 + n mod 10)]"
  by (subst digits.simps) (simp add: digits_one)

lemma digits_head: "0 < n \<Longrightarrow> \<exists>c cs. digits n = c # cs \<and> CHR ''0'' < c"
proof (induction n rule: digits.induct)
  case (1 n)
  show ?case
  proof (cases "n < 10")
    case True
    with 1(2) show ?thesis by (simp add: digits_one less_char_def)
  next
    case False
    then have "0 < n div 10" by simp
    with 1(1) False obtain c cs where "digits (n div 10) = c # cs" "CHR ''0'' < c" by auto
    with False show ?thesis by (subst digits.simps) simp
  qed
qed

lemma length_digits: "100 \<le> n \<Longrightarrow> 3 \<le> length (digits n)"
proof -
  assume a: "100 \<le> n"
  then have "10 \<le> n div 10" by simp
  moreover have "0 < length (digits k)" for k
    by (subst digits.simps) simp
  ultimately show ?thesis
    using a
    apply (subst digits.simps)
    apply simp
    apply (subst digits.simps)
    apply (simp add: Suc_le_eq)
    done
qed


lemma fmt_03d_small:
  assumes "n < 100"
  shows "fmt_03d n = [CHR ''0'', char_of (48 + n div 10), char_of (48 + n mod 10)]"
proof (cases "n < 10")
  case True
  then show ?thesis by (simp add: fmt_03d_def digits_one digit_zero numeral_3_eq_3)
next
  case False
  with assms show ?thesis by (simp add: fmt_03d_def digits_two numeral_3_eq_3)
qed

lemma fmt_03d_large: "100 \<le> n \<Longrightarrow> fmt_03d n = digits n"
  using length_digits [of n] by (simp add: fmt_03d_def)

lemma append_less_append: "xs @ ys < xs @ zs \<longleftrightarrow> ys < (zs :: 'a::order list)"
  by (induction xs) simp_all

lemma fmt_03d_less:
  assumes "n < 100" "n < m"
  shows "fmt_03d n @ t < fmt_03d m @ t"
proof (cases "m < 100")
  case True
  have split: "a < b" if "n = 10 * q + a" "m = 10 * q + b" for q a b :: nat
    using that assms(2) by simp
  have "n div 10 \<le> m div 10"
    using assms(2) by (simp add: div_le_mono)
  moreover have "n mod 10 < m mod 10" if "n div 10 = m div 10"
  proof -
    have "n = 10 * (n div 10) + n mod 10"
      by simp
    moreover have "m = 10 * (n div 10) + m mod 10"
      by (simp only: that mult_div_mod_eq)
    ultimately show ?thesis by (rule split)
  qed
  ultimately have d: "n div 10 < m div 10 \<or> (n div 10 = m div 10 \<and> n mod 10 < m mod 10)"
    by (cases "n div 10 = m div 10") simp_all
  have b: "n div 10 < 10" "m div 10 < 10" "n mod 10 < 10" "m mod 10 < 10"
    using assms(1) True by simp_all
  have "[char_of (48 + n div 10), char_of (48 + n mod 10)] @ t
      < [char_of (48 + m div 10), char_of (48 + m mod 10) :: char] @ t"
    using d digit_less [OF b(1) b(2)] digit_less [OF b(3) b(4)] by auto
  then show ?thesis
    using assms(1) True by (simp add: fmt_03d_small)
next
  case False
  then obtain c cs where "digits m = c # cs" "CHR ''0'' < c"
    using digits_head [of m] by auto
  with False assms(1) show ?thesis by (simp add: fmt_03d_small fmt_03d_large)
qed

lemma frame_path_less:
  assumes "n < 100" "n < m"
  shows "frame_path d n < frame_path d m"
  using fmt_03d_less [OF assms, of "''.png''"]
    append_less_append [of "d @ ''/frame_''" "fmt_03d n @ ''.png''" "fmt_03d m @ ''.png''"]
  by (simp add: frame_path_def filepath_Join_def)

lemma frame_path_sample:
  "map (frame_path ''/tmp/webp2mp4_7'') [0, 1, 12, 1000] =
     [''/tmp/webp2mp4_7/frame_000.png'', ''/tmp/webp2mp4_7/frame_001.png'',
      ''/tmp/webp2mp4_7/frame_012.png'', ''/tmp/webp2mp4_7/frame_1000.png'']"
  by code_simp

lemma first_frame_least_number:
  assumes names: "set fs = frame_path d ` N"
    and first: "x \<in> set fs" "\<forall>y\<in>set fs. x \<le> y"
    and low: "n \<in> N" "n < 100"
  shows "\<exists>k\<in>N. x = frame_path d k \<and> (\<forall>m\<in>N. k \<le> m)"
proof -
  obtain k where k: "k \<in> N" "x = frame_path d k"
    using names first(1) by auto
  have "k \<le> m" if "m \<in> N" for m
  proof (rule ccontr)
    assume "\<not> k \<le> m"
    then have mk: "m < k" by simp
    show False
    proof (cases "m < 100")
      case True
      then have "frame_path d m < x" using frame_path_less [OF True mk] k(2) by simp
      moreover have "x \<le> frame_path d m" using first(2) names that by auto
      ultimately show False by simp
    next
      case False
      then have "n < k" using low(2) mk by simp
      then have "frame_path d n < x" using frame_path_less [OF low(2)] k(2) by simp
      moreover have "x \<le> frame_path d n" using first(2) names low(1) by auto
      ultimately show False by simp
    qed
  qed
  with k show ?thesis by blast
qed

text \<open>
  Claim C7. When the dimensions of the first extracted frame cannot be read, Extraction
  Converter returns the error of line 132 around the cause and runs no reassembly. The
  first frame is the first name that \<^verbatim>\<open>filepath.Glob\<close> returns, the least of the frame
  files in the order of their names; where the frame files are the names of a set of
  frame numbers that has a number below 100, as it has when the numbering starts at 0 or
  at 1, it is the frame with the least number.
\<close>

theorem frame_dimensions_failure_is_fatal:
  assumes "mkdirTemp w = Inr tempDir"
    and "extractFrames w input verbose tempDir
           (log MkdirTemp (s\<lparr>files := tempDir # files s\<rparr>)) = (None, s')"
    and "sort (remdups (frame_files tempDir (files s'))) = firstFrame # rest"
    and "fst (getPNGDimensions w firstFrame s') = (wd, ht, Some e)"
  shows "fst (convertViaExtraction w input output fps bitrate verbose s) =
           Some (FrameDimensionsFailed e)
    \<and> (\<forall>wd ht. Exec ''ffmpeg'' (reassembleArgs tempDir output fps bitrate wd ht) \<notin>
          set (events s (snd (convertViaExtraction w input output fps bitrate verbose s))))
    \<and> events s' (snd (convertViaExtraction w input output fps bitrate verbose s)) =
          [Glob (filepath_Join tempDir ''frame_*.png''), Open firstFrame, RemoveAll tempDir]
    \<and> firstFrame \<in> set (frame_files tempDir (files s'))
    \<and> (\<forall>f\<in>set (frame_files tempDir (files s')). firstFrame \<le> f)
    \<and> (\<forall>N n. set (frame_files tempDir (files s')) = frame_path tempDir ` N
            \<and> n \<in> N \<and> n < 100 \<longrightarrow>
          (\<exists>k\<in>N. firstFrame = frame_path tempDir k \<and> (\<forall>m\<in>N. k \<le> m)))"
proof -
  let ?g = "Glob (filepath_Join tempDir ''frame_*.png'')"
  let ?s2 = "log ?g s'"
  let ?s3 = "os_RemoveAll tempDir (log (Open firstFrame) ?s2)"
  have "fst (getPNGDimensions w ((firstFrame # rest) ! 0) ?s2) = (wd, ht, Some e)"
    using assms(4) getPNGDimensions_state_free [of w firstFrame ?s2 s'] by simp
  then have "reassemble w output fps bitrate verbose tempDir (firstFrame # rest) ?s2 =
      (Some (FrameDimensionsFailed e), log (Open firstFrame) ?s2)"
    using reassemble_failed [of w "firstFrame # rest" ?s2 wd ht e] by simp
  then have c: "convertViaExtraction w input output fps bitrate verbose s =
      (Some (FrameDimensionsFailed e), ?s3)"
    using convertViaExtraction_frames [OF assms(1) assms(2) assms(3)] by simp
  have "\<forall>wd ht. Exec ''ffmpeg'' (reassembleArgs tempDir output fps bitrate wd ht) \<notin>
      set (events s ?s3)"
    using no_reassembly_after_extraction [OF assms(2),
        of ?s3 "[?g, Open firstFrame, RemoveAll tempDir]"]
    by simp
  moreover have "events s' ?s3 = [?g, Open firstFrame, RemoveAll tempDir]"
    by simp
  moreover have "\<exists>k\<in>N. firstFrame = frame_path tempDir k \<and> (\<forall>m\<in>N. k \<le> m)"
    if "set (frame_files tempDir (files s')) = frame_path tempDir ` N" "n \<in> N" "n < 100"
    for N n
    using first_frame_least_number [OF that(1) _ _ that(2) that(3)]
      first_of_sorted [OF assms(3)]
    by blast
  then have "\<forall>N n. set (frame_files tempDir (files s')) = frame_path tempDir ` N
            \<and> n \<in> N \<and> n < 100 \<longrightarrow>
          (\<exists>k\<in>N. firstFrame = frame_path tempDir k \<and> (\<forall>m\<in>N. k \<le> m))"
    by blast
  ultimately show ?thesis using c first_of_sorted [OF assms(3)] by simp
qed

theorem frame_dimensions_failure_is_fatal_witness:
  "sort (remdups (frame_files ''/tmp/webp2mp4_7''
       [''/tmp/webp2mp4_7/frame_002.png'', ''/tmp/webp2mp4_7/frame_001.png'',
        ''/tmp/webp2mp4_7'', ''anim.webp'']))
     = [''/tmp/webp2mp4_7/frame_001.png'', ''/tmp/webp2mp4_7/frame_002.png'']
   \<and> fst (convertViaExtraction (sample_world 0 0 0 sample_frames (Inl (OsError ''image: unknown format'')))
            ''anim.webp'' ''anim.mp4'' 30 ''2M'' False sample_state)
       = Some (FrameDimensionsFailed (OsError ''image: unknown format''))"
proof -
  let ?w = "sample_world 0 0 0 sample_frames (Inl (OsError ''image: unknown format''))"
  let ?s' = "\<lparr>files = [''/tmp/webp2mp4_7/frame_002.png'', ''/tmp/webp2mp4_7/frame_001.png'',
                      ''/tmp/webp2mp4_7'', ''anim.webp''],
         trace = [MkdirTemp, Exec ''ffmpeg'' [''-i'', ''anim.webp'', ''-vsync'', ''0'',
                    ''/tmp/webp2mp4_7/frame_%03d.png'']]\<rparr>"
  have h1: "mkdirTemp ?w = Inr ''/tmp/webp2mp4_7''"
    by (simp add: sample_world_def)
  have h2: "extractFrames ?w ''anim.webp'' False ''/tmp/webp2mp4_7''
      (log MkdirTemp (sample_state\<lparr>files := ''/tmp/webp2mp4_7'' # files sample_state\<rparr>))
     = (None, ?s')"
    by (simp add: sample_run)
  have h3: "sort (remdups (frame_files ''/tmp/webp2mp4_7'' (files ?s'))) =
      ''/tmp/webp2mp4_7/frame_001.png'' # [''/tmp/webp2mp4_7/frame_002.png'']"
    by code_simp
  have h4: "fst (getPNGDimensions ?w ''/tmp/webp2mp4_7/frame_001.png'' ?s') =
      (0, 0, Some (OsError ''image: unknown format''))"
    by (simp add: getPNGDimensions_def sample_world_def)
  show ?thesis using h3 frame_dimensions_failure_is_fatal [OF h1 h2 h3 h4] by simp
qed

subsection \<open>The scaling filter\<close>

lemma directArgs_even:
  assumes "0 < sint wd" "0 < sint ht" "even (sint wd)" "even (sint ht)"
  shows "directArgs input output fps bitrate wd ht =
     [''-f'', ''webp_pipe'', ''-i'', input, ''-c:v'', ''libx264'', ''-pix_fmt'', ''yuv420p'',
      ''-r'', fmt_d fps, ''-b:v'', bitrate,
      ''-preset'', ''medium'', ''-movflags'', ''+faststart'', ''-y'', output]"
  using assms
  by (simp add: directArgs_def outputOptions_def makeEven_word even_sint_go_int Let_def)


lemma reassembleArgs_even:
  assumes "even (sint wd)" "even (sint ht)"
  shows "reassembleArgs d output fps bitrate wd ht =
     [''-framerate'', fmt_d fps, ''-i'', filepath_Join d ''frame_%03d.png'',
      ''-c:v'', ''libx264'', ''-pix_fmt'', ''yuv420p'', ''-b:v'', bitrate,
      ''-preset'', ''medium'', ''-movflags'', ''+faststart'', ''-y'', output]"
  using assms
  by (simp add: reassembleArgs_def outputOptions_def makeEven_word even_sint_go_int Let_def)

lemma reassemble_trace:
  assumes "fst (getPNGDimensions w (frames ! 0) s) = (wd, ht, None)"
  shows "trace (snd (reassemble w output fps bitrate verbose d frames s)) =
     trace s @ [Open (frames ! 0), Exec ''ffmpeg'' (reassembleArgs d output fps bitrate wd ht)]"
  using reassemble_run [OF assms]
  by (cases "process w ''ffmpeg'' (reassembleArgs d output fps bitrate wd ht) (files s)")
    simp_all

lemma directArgs_not_positive:
  assumes "\<not> (0 < sint wd \<and> 0 < sint ht)"
  shows "directArgs input output fps bitrate wd ht =
     [''-f'', ''webp_pipe'', ''-i'', input, ''-c:v'', ''libx264'', ''-pix_fmt'', ''yuv420p'',
      ''-r'', fmt_d fps, ''-b:v'', bitrate, ''-vf'', truncFilter,
      ''-preset'', ''medium'', ''-movflags'', ''+faststart'', ''-y'', output]"
  using assms by (auto simp: directArgs_def outputOptions_def Let_def)

text \<open>
  Claim C4, as the code has it. When the dimensions are known and both even, neither
  converter adds a scaling filter: the arguments of the encoding run go from the bitrate
  straight to the output options. In Extraction Converter the dimensions are known when
  the first frame has been read. In Direct Converter they are known when the probe has
  returned them and the test of line 204 finds both positive: where the probe returns a
  width or a height that is not positive, the code takes the dimensions as unknown and
  adds the filter of line 221, whatever their parity.
\<close>

theorem even_dimensions_no_scale_filter:
  "(fst (getWebPDimensions w input s) = (wd, ht, None)
      \<and> 0 < sint wd \<and> 0 < sint ht \<and> even (sint wd) \<and> even (sint ht) \<longrightarrow>
    events s (snd (convertDirectly w input output fps bitrate verbose s)) =
      [Open input,
       Exec ''ffmpeg''
         [''-f'', ''webp_pipe'', ''-i'', input, ''-c:v'', ''libx264'', ''-pix_fmt'', ''yuv420p'',
          ''-r'', fmt_d fps, ''-b:v'', bitrate,
          ''-preset'', ''medium'', ''-movflags'', ''+faststart'', ''-y'', output]])
   \<and> (mkdirTemp w = Inr tempDir
      \<and> extractFrames w input verbose tempDir
           (log MkdirTemp (s\<lparr>files := tempDir # files s\<rparr>)) = (None, s')
      \<and> sort (remdups (frame_files tempDir (files s'))) = firstFrame # rest
      \<and> fst (getPNGDimensions w firstFrame s') = (fw, fh, None)
      \<and> even (sint fw) \<and> even (sint fh) \<longrightarrow>
    events s' (snd (convertViaExtraction w input output fps bitrate verbose s)) =
      [Glob (filepath_Join tempDir ''frame_*.png''), Open firstFrame,
       Exec ''ffmpeg''
         [''-framerate'', fmt_d fps, ''-i'', filepath_Join tempDir ''frame_%03d.png'',
          ''-c:v'', ''libx264'', ''-pix_fmt'', ''yuv420p'', ''-b:v'', bitrate,
          ''-preset'', ''medium'', ''-movflags'', ''+faststart'', ''-y'', output],
       RemoveAll tempDir])
   \<and> (fst (getWebPDimensions w input s) = (zw, zh, None)
      \<and> \<not> (0 < sint zw \<and> 0 < sint zh) \<longrightarrow>
    events s (snd (convertDirectly w input output fps bitrate verbose s)) =
      [Open input,
       Exec ''ffmpeg''
         [''-f'', ''webp_pipe'', ''-i'', input, ''-c:v'', ''libx264'', ''-pix_fmt'', ''yuv420p'',
          ''-r'', fmt_d fps, ''-b:v'', bitrate,
          ''-vf'', ''scale='trunc(iw/2)*2:trunc(ih/2)*2'' @ [CHR 0x27],
          ''-preset'', ''medium'', ''-movflags'', ''+faststart'', ''-y'', output]])"
proof (intro conjI impI)
  assume a: "fst (getWebPDimensions w input s) = (zw, zh, None)
      \<and> \<not> (0 < sint zw \<and> 0 < sint zh)"
  then have "trace (snd (convertDirectly w input output fps bitrate verbose s)) =
      trace s @ [Open input, Exec ''ffmpeg'' (directArgs input output fps bitrate zw zh)]"
    using convertDirectly_trace [of w input s zw zh None] by simp
  with a show "events s (snd (convertDirectly w input output fps bitrate verbose s)) =
      [Open input,
       Exec ''ffmpeg''
         [''-f'', ''webp_pipe'', ''-i'', input, ''-c:v'', ''libx264'', ''-pix_fmt'', ''yuv420p'',
          ''-r'', fmt_d fps, ''-b:v'', bitrate,
          ''-vf'', ''scale='trunc(iw/2)*2:trunc(ih/2)*2'' @ [CHR 0x27],
          ''-preset'', ''medium'', ''-movflags'', ''+faststart'', ''-y'', output]]"
    by (simp add: directArgs_not_positive truncFilter_def)
next
  assume a: "fst (getWebPDimensions w input s) = (wd, ht, None)
      \<and> 0 < sint wd \<and> 0 < sint ht \<and> even (sint wd) \<and> even (sint ht)"
  then have "trace (snd (convertDirectly w input output fps bitrate verbose s)) =
      trace s @ [Open input, Exec ''ffmpeg'' (directArgs input output fps bitrate wd ht)]"
    using convertDirectly_trace [of w input s wd ht None] by simp
  with a show "events s (snd (convertDirectly w input output fps bitrate verbose s)) =
      [Open input,
       Exec ''ffmpeg''
         [''-f'', ''webp_pipe'', ''-i'', input, ''-c:v'', ''libx264'', ''-pix_fmt'', ''yuv420p'',
          ''-r'', fmt_d fps, ''-b:v'', bitrate,
          ''-preset'', ''medium'', ''-movflags'', ''+faststart'', ''-y'', output]]"
    by (simp add: directArgs_even)
next
  let ?g = "Glob (filepath_Join tempDir ''frame_*.png'')"
  let ?s2 = "log ?g s'"
  let ?r = "reassemble w output fps bitrate verbose tempDir (firstFrame # rest) ?s2"
  assume a: "mkdirTemp w = Inr tempDir
      \<and> extractFrames w input verbose tempDir
           (log MkdirTemp (s\<lparr>files := tempDir # files s\<rparr>)) = (None, s')
      \<and> sort (remdups (frame_files tempDir (files s'))) = firstFrame # rest
      \<and> fst (getPNGDimensions w firstFrame s') = (fw, fh, None)
      \<and> even (sint fw) \<and> even (sint fh)"
  then have "fst (getPNGDimensions w ((firstFrame # rest) ! 0) ?s2) = (fw, fh, None)"
    using getPNGDimensions_state_free [of w firstFrame ?s2 s'] by simp
  then have t: "trace (snd ?r) =
      trace ?s2 @ [Open firstFrame, Exec ''ffmpeg'' (reassembleArgs tempDir output fps bitrate fw fh)]"
    using reassemble_trace [of w "firstFrame # rest" ?s2 fw fh] by simp
  have "convertViaExtraction w input output fps bitrate verbose s =
      (fst ?r, os_RemoveAll tempDir (snd ?r))"
    using a convertViaExtraction_frames [of w tempDir input verbose s s' firstFrame rest
        "output" fps bitrate "fst ?r" "snd ?r"]
    by simp
  with t a show "events s' (snd (convertViaExtraction w input output fps bitrate verbose s)) =
      [?g, Open firstFrame,
       Exec ''ffmpeg''
         [''-framerate'', fmt_d fps, ''-i'', filepath_Join tempDir ''frame_%03d.png'',
          ''-c:v'', ''libx264'', ''-pix_fmt'', ''yuv420p'', ''-b:v'', bitrate,
          ''-preset'', ''medium'', ''-movflags'', ''+faststart'', ''-y'', output],
       RemoveAll tempDir]"
    by (simp add: reassembleArgs_even)
qed


theorem even_dimensions_no_scale_filter_witness:
  "events sample_state
      (snd (convertDirectly (sample_world 0 0 0 sample_frames (Inr (640, 480)))
              ''anim.webp'' ''anim.mp4'' 30 ''2M'' True sample_state)) =
     [Open ''anim.webp'',
      Exec ''ffmpeg''
        [''-f'', ''webp_pipe'', ''-i'', ''anim.webp'', ''-c:v'', ''libx264'',
         ''-pix_fmt'', ''yuv420p'', ''-r'', ''30'', ''-b:v'', ''2M'',
         ''-preset'', ''medium'', ''-movflags'', ''+faststart'', ''-y'', ''anim.mp4'']]
   \<and> events
        \<lparr>files = [''/tmp/webp2mp4_7/frame_002.png'', ''/tmp/webp2mp4_7/frame_001.png'',
                  ''/tmp/webp2mp4_7'', ''anim.webp''],
         trace = [MkdirTemp, Exec ''ffmpeg'' [''-i'', ''anim.webp'', ''-vsync'', ''0'',
                    ''/tmp/webp2mp4_7/frame_%03d.png'']]\<rparr>
        (snd (convertViaExtraction (sample_world 0 0 0 sample_frames (Inr (640, 480)))
                ''anim.webp'' ''anim.mp4'' 30 ''2M'' True sample_state)) =
     [Glob ''/tmp/webp2mp4_7/frame_*.png'', Open ''/tmp/webp2mp4_7/frame_001.png'',
      Exec ''ffmpeg''
        [''-framerate'', ''30'', ''-i'', ''/tmp/webp2mp4_7/frame_%03d.png'',
         ''-c:v'', ''libx264'', ''-pix_fmt'', ''yuv420p'', ''-b:v'', ''2M'',
         ''-preset'', ''medium'', ''-movflags'', ''+faststart'', ''-y'', ''anim.mp4''],
      RemoveAll ''/tmp/webp2mp4_7'']
   \<and> events sample_state
        (snd (convertDirectly (sample_world 0 0 0 sample_frames (Inr (0, 480)))
                ''anim.webp'' ''anim.mp4'' 30 ''2M'' True sample_state)) =
     [Open ''anim.webp'',
      Exec ''ffmpeg''
        [''-f'', ''webp_pipe'', ''-i'', ''anim.webp'', ''-c:v'', ''libx264'',
         ''-pix_fmt'', ''yuv420p'', ''-r'', ''30'', ''-b:v'', ''2M'',
         ''-vf'', ''scale='trunc(iw/2)*2:trunc(ih/2)*2'' @ [CHR 0x27],
         ''-preset'', ''medium'', ''-movflags'', ''+faststart'', ''-y'', ''anim.mp4'']]"
proof -
  let ?w = "sample_world 0 0 0 sample_frames (Inr (640, 480))"
  let ?s' = "\<lparr>files = [''/tmp/webp2mp4_7/frame_002.png'', ''/tmp/webp2mp4_7/frame_001.png'',
                      ''/tmp/webp2mp4_7'', ''anim.webp''],
         trace = [MkdirTemp, Exec ''ffmpeg'' [''-i'', ''anim.webp'', ''-vsync'', ''0'',
                    ''/tmp/webp2mp4_7/frame_%03d.png'']]\<rparr>"
  have h1: "fst (getWebPDimensions ?w ''anim.webp'' sample_state) = (640, 480, None)
      \<and> 0 < sint (640::go_int) \<and> 0 < sint (480::go_int)
      \<and> even (sint (640::go_int)) \<and> even (sint (480::go_int))"
    by (simp add: getWebPDimensions_def sample_world_def)
  have h2: "mkdirTemp ?w = Inr ''/tmp/webp2mp4_7''"
    by (simp add: sample_world_def)
  have h3: "extractFrames ?w ''anim.webp'' True ''/tmp/webp2mp4_7''
      (log MkdirTemp (sample_state\<lparr>files := ''/tmp/webp2mp4_7'' # files sample_state\<rparr>))
     = (None, ?s')"
    by (simp add: sample_run)
  have h4: "sort (remdups (frame_files ''/tmp/webp2mp4_7'' (files ?s'))) =
      ''/tmp/webp2mp4_7/frame_001.png'' # [''/tmp/webp2mp4_7/frame_002.png'']"
    by code_simp
  have h5: "fst (getPNGDimensions ?w ''/tmp/webp2mp4_7/frame_001.png'' ?s') = (640, 480, None)
      \<and> even (sint (640::go_int)) \<and> even (sint (480::go_int))"
    by (simp add: getPNGDimensions_def sample_world_def)
  have h6: "fst (getWebPDimensions (sample_world 0 0 0 sample_frames (Inr (0, 480)))
        ''anim.webp'' sample_state) = (0, 480, None)
      \<and> \<not> (0 < sint (0::go_int) \<and> 0 < sint (480::go_int))"
    by (simp add: getWebPDimensions_def sample_world_def)
  show ?thesis
    using h1 h2 h3 h4 h5 h6
      even_dimensions_no_scale_filter [of ?w "''anim.webp''" sample_state 640 480
        "''anim.mp4''" 30 "''2M''" True "''/tmp/webp2mp4_7''" ?s'
        "''/tmp/webp2mp4_7/frame_001.png''" "[''/tmp/webp2mp4_7/frame_002.png'']" 640 480
        0 0]
      even_dimensions_no_scale_filter [of "sample_world 0 0 0 sample_frames (Inr (0, 480))"
        "''anim.webp''" sample_state 0 0
        "''anim.mp4''" 30 "''2M''" True "''/tmp/webp2mp4_7''" ?s'
        "''/tmp/webp2mp4_7/frame_001.png''" "[''/tmp/webp2mp4_7/frame_002.png'']" 0 0
        0 480]
    by (simp add: fmt_d_30 filepath_Join_def)
qed

text \<open>
  The claim as it was stated fails where the probe succeeds with a width of 0: both
  dimensions are known and even, and Direct Converter adds a filter.
\<close>

theorem even_dimensions_no_scale_filter_counterexample:
  "fst (getWebPDimensions (sample_world 0 0 0 sample_frames (Inr (0, 480)))
          ''anim.webp'' sample_state) = (0, 480, None)
   \<and> even (sint (0::go_int)) \<and> even (sint (480::go_int))
   \<and> events sample_state
        (snd (convertDirectly (sample_world 0 0 0 sample_frames (Inr (0, 480)))
                ''anim.webp'' ''anim.mp4'' 30 ''2M'' True sample_state)) =
     [Open ''anim.webp'',
      Exec ''ffmpeg''
        [''-f'', ''webp_pipe'', ''-i'', ''anim.webp'', ''-c:v'', ''libx264'',
         ''-pix_fmt'', ''yuv420p'', ''-r'', ''30'', ''-b:v'', ''2M'',
         ''-vf'', ''scale='trunc(iw/2)*2:trunc(ih/2)*2'' @ [CHR 0x27],
         ''-preset'', ''medium'', ''-movflags'', ''+faststart'', ''-y'', ''anim.mp4'']]"
  by (simp add: convertDirectly_def getWebPDimensions_def cmd_Run_def exec_Command_def
      log_def events_def sample_world_def sample_state_def Let_def directArgs_def
      outputOptions_def truncFilter_def fmt_d_30)



subsection \<open>The strategy selector\<close>

lemma convertDirectly_calls:
  "\<exists>args. trace (snd (convertDirectly w input output fps bitrate verbose s)) =
     trace s @ [Open input, Exec ''ffmpeg'' args]"
proof -
  obtain wd ht err where "fst (getWebPDimensions w input s) = (wd, ht, err)"
    by (metis prod_cases3)
  from convertDirectly_trace [OF this] show ?thesis by simp
qed

text \<open>
  Claim C1. In mode \<^verbatim>\<open>auto\<close>, once the input is found to exist, the selector runs Direct
  Converter first. Where that returns no error, the selector returns none and makes no
  further call. Where it returns an error, the selector goes on as Extraction Converter
  does from the state that Direct Converter left, with the same result, whatever the
  error was; a run of Extraction Converter begins with its one call of
  \<^verbatim>\<open>ioutil.TempDir\<close>, and there is exactly one such call.
\<close>

theorem auto_mode_fallback:
  assumes "input \<in> set (files s)"
    and "convertDirectly w input output fps bitrate verbose (log (Stat input) s) = (r, s')"
  shows "(\<exists>args. events s s' = [Stat input, Open input, Exec ''ffmpeg'' args])
    \<and> (\<exists>evs. events s (snd (convertWebPToMP4 w input output fps bitrate verbose ''auto'' s)) =
                events s s' @ evs
          \<and> (r = None \<longrightarrow> evs = [])
          \<and> (r \<noteq> None \<longrightarrow> count_list evs MkdirTemp = 1))
    \<and> (r = None \<longrightarrow>
          convertWebPToMP4 w input output fps bitrate verbose ''auto'' s = (None, s'))
    \<and> (r \<noteq> None \<longrightarrow>
          convertWebPToMP4 w input output fps bitrate verbose ''auto'' s =
            convertViaExtraction w input output fps bitrate verbose s')"
proof -
  let ?s0 = "log (Stat input) s"
  obtain args where "trace s' = trace ?s0 @ [Open input, Exec ''ffmpeg'' args]"
    using convertDirectly_calls [of w input "output" fps bitrate verbose ?s0] assms(2) by auto
  then have t: "trace s' = trace s @ [Stat input, Open input, Exec ''ffmpeg'' args]"
    by simp
  show ?thesis
  proof (cases r)
    case None
    then have "convertWebPToMP4 w input output fps bitrate verbose ''auto'' s = (None, s')"
      using assms by (simp add: convertWebPToMP4_def)
    with None t show ?thesis by simp
  next
    case (Some e)
    then have c: "convertWebPToMP4 w input output fps bitrate verbose ''auto'' s =
        convertViaExtraction w input output fps bitrate verbose s'"
      using assms by (simp add: convertWebPToMP4_def)
    obtain evs where "trace (snd (convertViaExtraction w input output fps bitrate verbose s')) =
        trace s' @ MkdirTemp # evs" "MkdirTemp \<notin> set evs"
      using convertViaExtraction_events [of w input "output" fps bitrate verbose s'] by auto
    then have "events s (snd (convertWebPToMP4 w input output fps bitrate verbose ''auto'' s)) =
        events s s' @ MkdirTemp # evs" "count_list (MkdirTemp # evs) MkdirTemp = 1"
      using c t by (simp_all add: count_list_0_iff)
    with Some c t show ?thesis by auto
  qed
qed

theorem auto_mode_fallback_witness:
  "''anim.webp'' \<in> set (files sample_state)
   \<and> convertDirectly (sample_world 1 0 0 sample_frames (Inr (641, 480)))
        ''anim.webp'' ''anim.mp4'' 30 ''2M'' False (log (Stat ''anim.webp'') sample_state) =
      (Some (FfmpegFailedOutput (ExitStatus 1) ''ffmpeg output''),
       \<lparr>files = [''anim.webp''],
        trace = [Stat ''anim.webp'', Open ''anim.webp'',
          Exec ''ffmpeg''
            [''-f'', ''webp_pipe'', ''-i'', ''anim.webp'', ''-c:v'', ''libx264'',
             ''-pix_fmt'', ''yuv420p'', ''-r'', ''30'', ''-b:v'', ''2M'',
             ''-vf'', ''scale=642:480:flags=lanczos'',
             ''-preset'', ''medium'', ''-movflags'', ''+faststart'', ''-y'', ''anim.mp4'']]\<rparr>)
   \<and> convertWebPToMP4 (sample_world 1 0 0 sample_frames (Inr (641, 480)))
        ''anim.webp'' ''anim.mp4'' 30 ''2M'' False ''auto'' sample_state =
      convertViaExtraction (sample_world 1 0 0 sample_frames (Inr (641, 480)))
        ''anim.webp'' ''anim.mp4'' 30 ''2M'' False
        \<lparr>files = [''anim.webp''],
         trace = [Stat ''anim.webp'', Open ''anim.webp'',
          Exec ''ffmpeg''
            [''-f'', ''webp_pipe'', ''-i'', ''anim.webp'', ''-c:v'', ''libx264'',
             ''-pix_fmt'', ''yuv420p'', ''-r'', ''30'', ''-b:v'', ''2M'',
             ''-vf'', ''scale=642:480:flags=lanczos'',
             ''-preset'', ''medium'', ''-movflags'', ''+faststart'', ''-y'', ''anim.mp4'']]\<rparr>
   \<and> convertWebPToMP4 (sample_world 1 0 0 sample_frames (Inr (641, 480)))
        ''anim.webp'' ''anim.mp4'' 30 ''2M'' True ''auto'' sample_state =
      (None,
       \<lparr>files = [''anim.webp''],
        trace = [Stat ''anim.webp'', Open ''anim.webp'',
          Exec ''ffmpeg''
            [''-f'', ''webp_pipe'', ''-i'', ''anim.webp'', ''-c:v'', ''libx264'',
             ''-pix_fmt'', ''yuv420p'', ''-r'', ''30'', ''-b:v'', ''2M'',
             ''-vf'', ''scale=642:480:flags=lanczos'',
             ''-preset'', ''medium'', ''-movflags'', ''+faststart'', ''-y'', ''anim.mp4'']]\<rparr>)"
proof -
  let ?w = "sample_world 1 0 0 sample_frames (Inr (641, 480))"
  have h1: "''anim.webp'' \<in> set (files sample_state)"
    by (simp add: sample_state_def)
  have n: "fmt_d 30 = ''30''" "fmt_d 642 = ''642''" "fmt_d 480 = ''480''" "makeEven 641 = 642"
    "makeEven 480 = 480"
    by code_simp+
  have h2: "convertDirectly ?w ''anim.webp'' ''anim.mp4'' 30 ''2M'' False
      (log (Stat ''anim.webp'') sample_state) =
      (Some (FfmpegFailedOutput (ExitStatus 1) ''ffmpeg output''),
       \<lparr>files = [''anim.webp''],
        trace = [Stat ''anim.webp'', Open ''anim.webp'',
          Exec ''ffmpeg''
            [''-f'', ''webp_pipe'', ''-i'', ''anim.webp'', ''-c:v'', ''libx264'',
             ''-pix_fmt'', ''yuv420p'', ''-r'', ''30'', ''-b:v'', ''2M'',
             ''-vf'', ''scale=642:480:flags=lanczos'',
             ''-preset'', ''medium'', ''-movflags'', ''+faststart'', ''-y'', ''anim.mp4'']]\<rparr>)"
    by (simp add: convertDirectly_def getWebPDimensions_def cmd_CombinedOutput_def cmd_Run_def
        exec_Command_def log_def sample_world_def sample_state_def Let_def directArgs_def
        outputOptions_def scaleFilter_def n)
  have h3: "convertDirectly ?w ''anim.webp'' ''anim.mp4'' 30 ''2M'' True
      (log (Stat ''anim.webp'') sample_state) =
      (None,
       \<lparr>files = [''anim.webp''],
        trace = [Stat ''anim.webp'', Open ''anim.webp'',
          Exec ''ffmpeg''
            [''-f'', ''webp_pipe'', ''-i'', ''anim.webp'', ''-c:v'', ''libx264'',
             ''-pix_fmt'', ''yuv420p'', ''-r'', ''30'', ''-b:v'', ''2M'',
             ''-vf'', ''scale=642:480:flags=lanczos'',
             ''-preset'', ''medium'', ''-movflags'', ''+faststart'', ''-y'', ''anim.mp4'']]\<rparr>)"
    by (simp add: convertDirectly_def getWebPDimensions_def cmd_CombinedOutput_def cmd_Run_def
        exec_Command_def log_def sample_world_def sample_state_def Let_def directArgs_def
        outputOptions_def scaleFilter_def n)
  show ?thesis
    using h1 h2 h3 auto_mode_fallback [OF h1 h2] auto_mode_fallback [OF h1 h3] by simp
qed


text \<open>
  Claim C10. For a method that is neither \<^verbatim>\<open>auto\<close> nor \<^verbatim>\<open>extract\<close>, be it \<^verbatim>\<open>direct\<close> or a
  word that names no method, the selector, once the input is found to exist, runs Direct
  Converter and returns what that returns: no error is raised about the method, and
  Extraction Converter is not run.
\<close>

theorem other_methods_run_direct:
  assumes "input \<in> set (files s)"
    and "method \<noteq> ''auto''" and "method \<noteq> ''extract''"
  shows "convertWebPToMP4 w input output fps bitrate verbose method s =
           convertDirectly w input output fps bitrate verbose (log (Stat input) s)
    \<and> (\<exists>args. events s (snd (convertWebPToMP4 w input output fps bitrate verbose method s)) =
          [Stat input, Open input, Exec ''ffmpeg'' args])"
proof -
  have c: "convertWebPToMP4 w input output fps bitrate verbose method s =
      convertDirectly w input output fps bitrate verbose (log (Stat input) s)"
    using assms by (simp add: convertWebPToMP4_def)
  obtain args where
    "trace (snd (convertDirectly w input output fps bitrate verbose (log (Stat input) s))) =
       trace (log (Stat input) s) @ [Open input, Exec ''ffmpeg'' args]"
    using convertDirectly_calls [of w input "output" fps bitrate verbose "log (Stat input) s"]
    by auto
  with c show ?thesis by simp
qed

theorem other_methods_run_direct_witness:
  "''anim.webp'' \<in> set (files sample_state) \<and> ''foo'' \<noteq> ''auto'' \<and> ''foo'' \<noteq> ''extract''
   \<and> convertWebPToMP4 (sample_world 0 0 0 sample_frames (Inr (640, 480)))
        ''anim.webp'' ''anim.mp4'' 30 ''2M'' True ''foo'' sample_state =
      convertDirectly (sample_world 0 0 0 sample_frames (Inr (640, 480)))
        ''anim.webp'' ''anim.mp4'' 30 ''2M'' True (log (Stat ''anim.webp'') sample_state)"
proof -
  have h1: "''anim.webp'' \<in> set (files sample_state)"
    by (simp add: sample_state_def)
  have h2: "''foo'' \<noteq> ''auto''" and h3: "''foo'' \<noteq> ''extract''"
    by simp_all
  show ?thesis using h1 other_methods_run_direct [OF h1 h2 h3] by simp
qed

subsection \<open>The default output name\<close>

lemma ext_scan_skip:
  "CHR ''.'' \<notin> set xs \<Longrightarrow> CHR ''/'' \<notin> set xs \<Longrightarrow>
   ext_scan (xs @ rs) acc = ext_scan rs (rev xs @ acc)"
  by (induction xs arbitrary: acc) auto

lemma filepath_Ext_dot:
  assumes "CHR ''.'' \<notin> set ext" "CHR ''/'' \<notin> set ext"
  shows "filepath_Ext (stem @ ''.'' @ ext) = ''.'' @ ext"
  using ext_scan_skip [of "rev ext" "CHR ''.'' # rev stem" "[]"] assms
  by (simp add: filepath_Ext_def)

lemma filepath_Ext_none:
  assumes "CHR ''.'' \<notin> set name" "CHR ''/'' \<notin> set name"
  shows "filepath_Ext name = []"
  using ext_scan_skip [of "rev name" "[]" "[]"] assms
  by (simp add: filepath_Ext_def)

lemma filepath_Ext_none_in_directory:
  assumes "CHR ''.'' \<notin> set name" "CHR ''/'' \<notin> set name"
  shows "filepath_Ext (dir @ ''/'' @ name) = []"
  using ext_scan_skip [of "rev name" "CHR ''/'' # rev dir" "[]"] assms
  by (simp add: filepath_Ext_def)

text \<open>
  Claim C9. With no \<^verbatim>\<open>-o\<close>, the output name is the input name with its extension, the
  part from the last dot of the last path element, replaced by \<^verbatim>\<open>.mp4\<close>, so that
  \<^verbatim>\<open>clip.webp\<close> gives \<^verbatim>\<open>clip.mp4\<close>; a name without an extension gets \<^verbatim>\<open>.mp4\<close> appended.
\<close>

theorem default_output_replaces_extension:
  "main_output ''clip.webp'' [] = ''clip.mp4''
   \<and> (CHR ''.'' \<notin> set ext \<and> CHR ''/'' \<notin> set ext \<longrightarrow>
        main_output (stem @ ''.'' @ ext) [] = stem @ ''.mp4'')
   \<and> (CHR ''.'' \<notin> set name \<and> CHR ''/'' \<notin> set name \<longrightarrow>
        main_output name [] = name @ ''.mp4''
        \<and> main_output (dir @ ''/'' @ name) [] = dir @ ''/'' @ name @ ''.mp4'')"
proof -
  have "main_output (stem @ ''.'' @ ext) [] = stem @ ''.mp4''"
    if "CHR ''.'' \<notin> set ext" "CHR ''/'' \<notin> set ext" for stem ext
    using filepath_Ext_dot [OF that, of stem]
    by (simp add: main_output_def strings_TrimSuffix_def strings_HasSuffix_def)
  moreover from this [of "''webp''" "''clip''"] have "main_output ''clip.webp'' [] = ''clip.mp4''"
    by simp
  moreover have "main_output name [] = name @ ''.mp4''
      \<and> main_output (dir @ ''/'' @ name) [] = dir @ ''/'' @ name @ ''.mp4''"
    if "CHR ''.'' \<notin> set name" "CHR ''/'' \<notin> set name"
    using filepath_Ext_none [OF that] filepath_Ext_none_in_directory [OF that, of dir]
    by (simp add: main_output_def strings_TrimSuffix_def strings_HasSuffix_def)
  ultimately show ?thesis by blast
qed

theorem default_output_replaces_extension_witness:
  "main_output ''videos/anim.v2.webp'' [] = ''videos/anim.v2.mp4''
   \<and> main_output ''videos.d/anim'' [] = ''videos.d/anim.mp4''"
  using default_output_replaces_extension [of "''webp''" "''videos/anim.v2''" "''anim''" "''videos.d''"]
  by simp

end
